theory Spec2Isabelle
  imports Complex_Main "HOL-Library.AList" "HOL-Library.Word"
begin

section \<open>JavaScript values\<close>

text \<open>
  The read-API client of \<^verbatim>\<open>WrapperConnection\<close> works on untyped data: the caller's
  input object is spread into the request parameters, and the endpoint's answer is
  whatever \<^verbatim>\<open>response.json()\<close> decodes. The values are therefore modelled as they are
  at run time.

  A number is an IEEE double: a finite value (a rational; the two zeros are identified,
  both are falsy and both are numbers), an infinity, or NaN. The client does no
  arithmetic on numbers, it only tests and forwards them.
\<close>

datatype jsnumber = Finite rat | PosInfinity | NegInfinity | NaN

datatype jsvalue =
    JUndefined
  | JNull
  | JBool bool
  | JNumber jsnumber
  | JString string
  | JArray "jsvalue list"
  | JObject "(string \<times> jsvalue) list"

type_synonym js_object = "(string \<times> jsvalue) list"

text \<open>\<^verbatim>\<open>ToBoolean\<close>, the test behind \<^verbatim>\<open>!x\<close>, \<^verbatim>\<open>x || y\<close> and \<^verbatim>\<open>if (x)\<close>.\<close>

fun truthy :: "jsvalue \<Rightarrow> bool" where
  "truthy JUndefined = False"
| "truthy JNull = False"
| "truthy (JBool b) = b"
| "truthy (JNumber n) = (n \<noteq> Finite 0 \<and> n \<noteq> NaN)"
| "truthy (JString s) = (s \<noteq> [])"
| "truthy (JArray xs) = True"
| "truthy (JObject kvs) = True"

text \<open>\<^verbatim>\<open>typeof x\<close>.\<close>

fun typeof :: "jsvalue \<Rightarrow> string" where
  "typeof JUndefined = ''undefined''"
| "typeof JNull = ''object''"
| "typeof (JBool b) = ''boolean''"
| "typeof (JNumber n) = ''number''"
| "typeof (JString s) = ''string''"
| "typeof (JArray xs) = ''object''"
| "typeof (JObject kvs) = ''object''"

text \<open>\<^verbatim>\<open>a || b\<close> and \<^verbatim>\<open>a ?? b\<close>.\<close>

definition logical_or :: "jsvalue \<Rightarrow> jsvalue \<Rightarrow> jsvalue" where
  "logical_or a b = (if truthy a then a else b)"

definition nullish_coalesce :: "jsvalue \<Rightarrow> jsvalue \<Rightarrow> jsvalue" where
  "nullish_coalesce a b = (if a = JUndefined \<or> a = JNull then b else a)"

text \<open>
  An object is the list of its properties, each name once. \<^verbatim>\<open>obj.k\<close> is the value of the
  property, \<^verbatim>\<open>undefined\<close> when there is none. \<^verbatim>\<open>{...obj, k: v}\<close> copies the properties of
  \<^verbatim>\<open>obj\<close> and then sets \<^verbatim>\<open>k\<close>: an existing property keeps its place and takes the new value,
  a new one is appended.
\<close>

definition property :: "js_object \<Rightarrow> string \<Rightarrow> jsvalue" where
  "property obj k = (case map_of obj k of None \<Rightarrow> JUndefined | Some v \<Rightarrow> v)"

definition set_prop :: "string \<Rightarrow> jsvalue \<Rightarrow> js_object \<Rightarrow> js_object" where
  "set_prop k v obj = AList.update k v obj"

section \<open>Errors\<close>

text \<open>
  The error objects that can leave the client. \<^verbatim>\<open>ReadApiError\<close> is the class of the
  source (a \<^verbatim>\<open>MetaplexError\<close> with source \<^verbatim>\<open>"rpc"\<close>): it carries the message it was
  constructed with and the optional cause. \<^verbatim>\<open>Error\<close>, \<^verbatim>\<open>TypeError\<close> and \<^verbatim>\<open>SyntaxError\<close> are the platform's
  classes. A \<^verbatim>\<open>throw\<close> may also carry a value that is no \<^verbatim>\<open>Error\<close> instance.
\<close>

datatype js_error =
    Error string
  | TypeError string
  | SyntaxError string
  | ReadApiError string "js_error option"

datatype thrown = ThrownError js_error | ThrownValue jsvalue

text \<open>\<^verbatim>\<open>e instanceof Error ? e : undefined\<close>\<close>

fun error_instance :: "thrown \<Rightarrow> js_error option" where
  "error_instance (ThrownError e) = Some e"
| "error_instance (ThrownValue v) = None"

fun is_ReadApiError :: "js_error \<Rightarrow> bool" where
  "is_ReadApiError (ReadApiError m c) = True"
| "is_ReadApiError e = False"

section \<open>The network\<close>

text \<open>
  \<^verbatim>\<open>fetch(url, init)\<close> either rejects (a network failure) or resolves to a response with
  a status and a body. \<^verbatim>\<open>response.ok\<close> is the Fetch API's test for a status in the
  range 200 to 299. \<^verbatim>\<open>response.json()\<close> either rejects (the body is no JSON text) or
  resolves to the decoded value; the field \<open>json\<close> holds that outcome. The \<open>body\<close> of a
  request is the value handed to \<^verbatim>\<open>JSON.stringify\<close>.

  The endpoint is a parameter of every operation: a function from the request to what
  \<^verbatim>\<open>fetch\<close> does with it. The state threaded through the client is the list of the
  requests issued so far.
\<close>

record fetch_init =
  http_method :: string
  headers :: "(string \<times> string) list"
  body :: jsvalue

record http_response =
  status :: nat
  json :: "thrown + jsvalue"

definition ok :: "http_response \<Rightarrow> bool" where
  "ok response = (200 \<le> status response \<and> status response \<le> 299)"

type_synonym fetch_fn = "string \<Rightarrow> fetch_init \<Rightarrow> thrown + http_response"

type_synonym network_log = "(string \<times> fetch_init) list"

text \<open>The decimal text of a status code, for the template string \<^verbatim>\<open>`HTTP ${response.status}`\<close>.\<close>

fun string_of_nat :: "nat \<Rightarrow> string" where
  "string_of_nat n =
     (if n < 10 then [''0123456789'' ! n]
      else string_of_nat (n div 10) @ [''0123456789'' ! (n mod 10)])"

declare string_of_nat.simps [simp del]

section \<open>The read-API client\<close>

record rpc_request =
  "method" :: string
  id' :: "string option"
  params :: jsvalue

record WrapperConnection =
  rpcEndpoint :: string

datatype pubkey = PublicKey string

text \<open>
  \<^verbatim>\<open>PublicKey\<close> is the SDK's address class. A key is kept in its base-58 text, which is
  what \<^verbatim>\<open>new PublicKey(text)\<close> is built from and what \<^verbatim>\<open>toBase58()\<close> gives back; the
  constructor with its checks is \<open>new_PublicKey\<close>, with the transformers.
\<close>

fun toBase58 :: "pubkey \<Rightarrow> string" where
  "toBase58 (PublicKey s) = s"

text \<open>
  \<^verbatim>\<open>callReadApi\<close>: one POST of the JSON-RPC envelope. Everything thrown inside the
  \<^verbatim>\<open>try\<close> block (\<^verbatim>\<open>fetch\<close> rejecting, the status check, \<^verbatim>\<open>response.json()\<close> rejecting)
  is caught and replaced by a \<^verbatim>\<open>ReadApiError\<close>. The function returns the decoded body
  as it is.
\<close>

definition callReadApi ::
  "fetch_fn \<Rightarrow> WrapperConnection \<Rightarrow> rpc_request \<Rightarrow> network_log \<Rightarrow> (js_error + jsvalue) \<times> network_log"
where
  "callReadApi fetch this request sent =
     (let init = \<lparr>http_method = ''POST'',
                  headers = [(''Content-Type'', ''application/json'')],
                  body = JObject
                    [(''jsonrpc'', JString ''2.0''),
                     (''method'', JString (method request)),
                     (''id'', JString (case id' request of None \<Rightarrow> ''rpd-op-123'' | Some i \<Rightarrow> i)),
                     (''params'', params request)]\<rparr>;
          sent' = sent @ [(rpcEndpoint this, init)]
      in case fetch (rpcEndpoint this) init of
           Inl e \<Rightarrow> (Inl (ReadApiError ''Failed to call ReadAPI'' (error_instance e)), sent')
         | Inr response \<Rightarrow>
             if \<not> ok response
             then (Inl (ReadApiError ''Failed to call ReadAPI''
                          (Some (Error (''HTTP '' @ string_of_nat (status response))))), sent')
             else (case json response of
                     Inl e \<Rightarrow> (Inl (ReadApiError ''Failed to call ReadAPI'' (error_instance e)), sent')
                   | Inr v \<Rightarrow> (Inr v, sent')))"

text \<open>
  \<^verbatim>\<open>validatePagination\<close>: throws when \<^verbatim>\<open>page\<close> is a number and \<^verbatim>\<open>before || after\<close> is
  truthy.
\<close>

definition validatePagination :: "jsvalue \<Rightarrow> jsvalue \<Rightarrow> jsvalue \<Rightarrow> js_error + unit" where
  "validatePagination page before_cursor after_cursor =
     (if typeof page = ''number'' \<and> truthy (logical_or before_cursor after_cursor)
      then Inl (ReadApiError
                  ''Pagination Error. Only one pagination parameter supported per query.'' None)
      else Inr ())"

text \<open>
  \<^verbatim>\<open>const { result } = body\<close>: destructuring \<^verbatim>\<open>null\<close> throws a \<^verbatim>\<open>TypeError\<close> (the message
  is the engine's); an object gives its \<^verbatim>\<open>result\<close> property; any other decoded value (a
  number, a string, a boolean, an array) has no such property and gives \<^verbatim>\<open>undefined\<close>. A
  decoded body is never \<^verbatim>\<open>undefined\<close>; destructuring it would throw as well.
\<close>

fun destructure_result :: "jsvalue \<Rightarrow> js_error + jsvalue" where
  "destructure_result JNull =
     Inl (TypeError
       ''Cannot destructure property 'result' of '(intermediate value)' as it is null.'')"
| "destructure_result JUndefined =
     Inl (TypeError
       ''Cannot destructure property 'result' of '(intermediate value)' as it is undefined.'')"
| "destructure_result (JObject kvs) = Inr (property kvs ''result'')"
| "destructure_result v = Inr JUndefined"

definition getAsset ::
  "fetch_fn \<Rightarrow> WrapperConnection \<Rightarrow> pubkey \<Rightarrow> network_log \<Rightarrow> (js_error + jsvalue) \<times> network_log"
where
  "getAsset fetch this assetId sent =
     (case callReadApi fetch this
             \<lparr>method = ''getAsset'', id' = None,
              params = JObject [(''id'', JString (toBase58 assetId))]\<rparr> sent of
        (Inl e, sent') \<Rightarrow> (Inl e, sent')
      | (Inr response, sent') \<Rightarrow>
          (case destructure_result response of
             Inl e \<Rightarrow> (Inl e, sent')
           | Inr result \<Rightarrow>
               if \<not> truthy result then (Inl (ReadApiError ''No asset returned'' None), sent')
               else (Inr result, sent')))"

definition getAssetProof ::
  "fetch_fn \<Rightarrow> WrapperConnection \<Rightarrow> pubkey \<Rightarrow> network_log \<Rightarrow> (js_error + jsvalue) \<times> network_log"
where
  "getAssetProof fetch this assetId sent =
     (case callReadApi fetch this
             \<lparr>method = ''getAssetProof'', id' = None,
              params = JObject [(''id'', JString (toBase58 assetId))]\<rparr> sent of
        (Inl e, sent') \<Rightarrow> (Inl e, sent')
      | (Inr response, sent') \<Rightarrow>
          (case destructure_result response of
             Inl e \<Rightarrow> (Inl e, sent')
           | Inr result \<Rightarrow>
               if \<not> truthy result then (Inl (ReadApiError ''No asset proof returned'' None), sent')
               else (Inr result, sent')))"

text \<open>
  The parameters of the two list queries: the caller's object, spread, with the five
  pagination and sorting properties set to their value or their default.
\<close>

definition list_params :: "js_object \<Rightarrow> js_object" where
  "list_params input =
     set_prop ''sortBy'' (nullish_coalesce (property input ''sortBy'') JNull)
       (set_prop ''limit'' (nullish_coalesce (property input ''limit'') JNull)
         (set_prop ''after'' (nullish_coalesce (property input ''after'') JNull)
           (set_prop ''before'' (nullish_coalesce (property input ''before'') JNull)
             (set_prop ''page'' (nullish_coalesce (property input ''page'') (JNumber (Finite 1)))
               input))))"

definition getAssetsByGroup ::
  "fetch_fn \<Rightarrow> WrapperConnection \<Rightarrow> js_object \<Rightarrow> network_log \<Rightarrow> (js_error + jsvalue) \<times> network_log"
where
  "getAssetsByGroup fetch this input sent =
     (case validatePagination (property input ''page'') (property input ''before'')
             (property input ''after'') of
        Inl e \<Rightarrow> (Inl e, sent)
      | Inr u \<Rightarrow>
          (case callReadApi fetch this
                  \<lparr>method = ''getAssetsByGroup'', id' = None,
                   params = JObject (list_params input)\<rparr> sent of
             (Inl e, sent') \<Rightarrow> (Inl e, sent')
           | (Inr response, sent') \<Rightarrow>
               (case destructure_result response of
                  Inl e \<Rightarrow> (Inl e, sent')
                | Inr result \<Rightarrow>
                    if \<not> truthy result then (Inl (ReadApiError ''No results returned'' None), sent')
                    else (Inr result, sent'))))"

definition getAssetsByOwner ::
  "fetch_fn \<Rightarrow> WrapperConnection \<Rightarrow> js_object \<Rightarrow> network_log \<Rightarrow> (js_error + jsvalue) \<times> network_log"
where
  "getAssetsByOwner fetch this input sent =
     (case validatePagination (property input ''page'') (property input ''before'')
             (property input ''after'') of
        Inl e \<Rightarrow> (Inl e, sent)
      | Inr u \<Rightarrow>
          (case callReadApi fetch this
                  \<lparr>method = ''getAssetsByOwner'', id' = None,
                   params = JObject (list_params input)\<rparr> sent of
             (Inl e, sent') \<Rightarrow> (Inl e, sent')
           | (Inr response, sent') \<Rightarrow>
               (case destructure_result response of
                  Inl e \<Rightarrow> (Inl e, sent')
                | Inr result \<Rightarrow>
                    if \<not> truthy result then (Inl (ReadApiError ''No results returned'' None), sent')
                    else (Inr result, sent'))))"

section \<open>Endpoints and inputs for the concrete cases\<close>

text \<open>
  A connection, an endpoint that answers every request with a given status and decoded
  body, and one that is unreachable.
\<close>

definition endpoint :: WrapperConnection where
  "endpoint = \<lparr>rpcEndpoint = ''https://rpc.example''\<rparr>"

definition fetch_responding :: "nat \<Rightarrow> thrown + jsvalue \<Rightarrow> fetch_fn" where
  "fetch_responding code decoded url init = Inr \<lparr>status = code, json = decoded\<rparr>"

definition fetch_rejecting :: "thrown \<Rightarrow> fetch_fn" where
  "fetch_rejecting e url init = Inl e"

text \<open>The request that \<^verbatim>\<open>callReadApi\<close> posts for a method and its parameters, with the default id.\<close>

definition posted :: "string \<Rightarrow> jsvalue \<Rightarrow> fetch_init" where
  "posted m p =
     \<lparr>http_method = ''POST'',
      headers = [(''Content-Type'', ''application/json'')],
      body = JObject [(''jsonrpc'', JString ''2.0''), (''method'', JString m),
                      (''id'', JString ''rpd-op-123''), (''params'', p)]\<rparr>"

text \<open>
  \<open>answers fetch this init v\<close>: the endpoint of the connection answers the request \<open>init\<close>
  with a success status and a body that decodes to \<open>v\<close>.
\<close>

definition answers :: "fetch_fn \<Rightarrow> WrapperConnection \<Rightarrow> fetch_init \<Rightarrow> jsvalue \<Rightarrow> bool" where
  "answers fetch this init v =
     (case fetch (rpcEndpoint this) init of
        Inl e \<Rightarrow> False
      | Inr response \<Rightarrow> ok response \<and> json response = Inr v)"

definition asset_list :: jsvalue where
  "asset_list = JObject [(''total'', JNumber (Finite 0)), (''items'', JArray [])]"

definition owner_only :: js_object where
  "owner_only = [(''ownerAddress'', JString ''X'')]"

definition page_and_after :: js_object where
  "page_and_after =
     [(''ownerAddress'', JString ''X''), (''page'', JNumber (Finite 2)),
      (''after'', JString ''Cursor1'')]"

definition page_and_empty_before :: js_object where
  "page_and_empty_before =
     [(''ownerAddress'', JString ''X''), (''page'', JNumber (Finite 1)),
      (''before'', JString [])]"

definition before_and_after :: js_object where
  "before_and_after =
     [(''groupKey'', JString ''collection''), (''groupValue'', JString ''Coll1''),
      (''before'', JString ''Cursor1''), (''after'', JString ''Cursor2'')]"

section \<open>The response transformers\<close>

text \<open>
  Modelled from the spec: the type \<^verbatim>\<open>ReadApiAsset\<close> and the types of its parts, which
  the source imports from \<^verbatim>\<open>@/ReadApi/types\<close>. The fields are those of the spec's data
  model that the transformers read: the authorities (address and scopes; the list may be
  absent), the grouping entries, the compression block (tree address, leaf index), the
  print supply, the royalty, the content (metadata JSON, which may be absent and whose
  name and symbol may be absent, and the URI), the creators and the mutable flag.
  An address is the string the read API delivered, whatever it holds; the leaf index is
  a non-negative integer.
\<close>

record authority =
  address :: string
  scopes :: "string list"

record grouping =
  group_key :: string
  group_value :: string

record compression =
  tree :: string
  leaf_id :: nat

record print_supply =
  print_current_supply :: nat
  print_max_supply :: nat
  edition_nonce :: nat

record royalty =
  basis_points :: nat
  primary_sale_happened :: bool

record creator =
  address :: string
  share :: nat
  verified :: bool

record asset_json =
  name :: "string option"
  symbol :: "string option"

record content =
  metadata :: "asset_json option"
  json_uri :: string

record ReadApiAsset =
  id' :: string
  authorities :: "authority list option"
  grouping :: "grouping list"
  compression :: compression
  "supply" :: print_supply
  royalty :: royalty
  content :: content
  creators :: "creator list"
  mutable :: bool

subsection \<open>The SDK's public keys\<close>

text \<open>
  \<^verbatim>\<open>new PublicKey(text)\<close> decodes the text as base 58 and throws unless it gets 32 bytes.
  The decoder (\<^verbatim>\<open>bs58.decode\<close>) throws \<^verbatim>\<open>Error("Non-base58 character")\<close> on a character
  outside the alphabet; otherwise the text is a number in base 58, most significant digit
  first, and the result is one zero byte for each leading \<^verbatim>\<open>1\<close> followed by the bytes of the
  number, most significant first. The constructor throws
  \<^verbatim>\<open>Error("Invalid public key input")\<close> when the result is not 32 bytes long. A key built
  this way is kept in its text (\<open>PublicKey\<close>, above); \<^verbatim>\<open>toBuffer()\<close> gives its 32 bytes.
\<close>

definition base58_alphabet :: string where
  "base58_alphabet = ''123456789ABCDEFGHJKLMNPQRSTUVWXYZabcdefghijkmnopqrstuvwxyz''"

fun position :: "'a \<Rightarrow> 'a list \<Rightarrow> nat option" where
  "position x [] = None"
| "position x (y # ys) = (if x = y then Some 0 else map_option Suc (position x ys))"

fun base58_number :: "nat \<Rightarrow> string \<Rightarrow> nat option" where
  "base58_number acc [] = Some acc"
| "base58_number acc (c # cs) =
     (case position c base58_alphabet of
        None \<Rightarrow> None
      | Some d \<Rightarrow> base58_number (acc * 58 + d) cs)"

fun bytes_be :: "nat \<Rightarrow> 8 word list" where
  "bytes_be n = (if n = 0 then [] else bytes_be (n div 256) @ [of_nat (n mod 256)])"

declare bytes_be.simps [simp del]

definition bs58_decode :: "string \<Rightarrow> js_error + 8 word list" where
  "bs58_decode s =
     (case base58_number 0 s of
        None \<Rightarrow> Inl (Error ''Non-base58 character'')
      | Some n \<Rightarrow>
          Inr (replicate (length (takeWhile (\<lambda>c. c = CHR ''1'') s)) 0 @ bytes_be n))"

definition new_PublicKey :: "string \<Rightarrow> js_error + pubkey" where
  "new_PublicKey s =
     (case bs58_decode s of
        Inl e \<Rightarrow> Inl e
      | Inr decoded \<Rightarrow>
          if length decoded \<noteq> 32 then Inl (Error ''Invalid public key input'')
          else Inr (PublicKey s))"

definition toBuffer :: "pubkey \<Rightarrow> 8 word list" where
  "toBuffer key = (case bs58_decode (toBase58 key) of Inl e \<Rightarrow> [] | Inr decoded \<Rightarrow> decoded)"

subsection \<open>The SDK's big numbers\<close>

text \<open>
  \<^verbatim>\<open>new BN(n)\<close> on a number asserts that \<open>n\<close> is below \<open>2 ^ 53\<close>, and
  \<^verbatim>\<open>toArray("le", len)\<close> asserts that the value fits into \<open>len\<close> bytes; a failed assertion
  throws an \<^verbatim>\<open>Error\<close>. The array of a value that fits holds its bytes, least significant
  first, padded with zeros to \<open>len\<close> bytes (\<open>le_bytes\<close>); \<open>from_le\<close> reads such bytes back.
\<close>

definition new_BN :: "nat \<Rightarrow> js_error + nat" where
  "new_BN n = (if n < 2 ^ 53 then Inr n else Inl (Error ''Assertion failed''))"

fun le_bytes :: "nat \<Rightarrow> nat \<Rightarrow> 8 word list" where
  "le_bytes n 0 = []"
| "le_bytes n (Suc len) = of_nat (n mod 256) # le_bytes (n div 256) len"

definition toArray_le :: "nat \<Rightarrow> nat \<Rightarrow> js_error + 8 word list" where
  "toArray_le bn len =
     (if bn < 256 ^ len then Inr (le_bytes bn len)
      else Inl (Error ''byte array longer than desired length''))"

fun from_le :: "8 word list \<Rightarrow> nat" where
  "from_le [] = 0"
| "from_le (b # bs) = unat b + 256 * from_le bs"

text \<open>\<^verbatim>\<open>Buffer.from(text, "utf-8")\<close> on text of 7-bit characters: one byte for each.\<close>

definition Buffer_from_utf8 :: "string \<Rightarrow> 8 word list" where
  "Buffer_from_utf8 s = map (\<lambda>c. of_nat (of_char c)) s"

subsection \<open>The SDK's program-derived addresses\<close>

text \<open>
  The SDK's class \<^verbatim>\<open>Pda\<close> is a \<^verbatim>\<open>PublicKey\<close> with one more member, the \<^verbatim>\<open>bump\<close>.
  \<^verbatim>\<open>Pda.find(programId, seeds)\<close> makes one from the key and the bump that
  \<^verbatim>\<open>PublicKey.findProgramAddressSync(seeds, programId)\<close> returns; that function, which may
  throw, and the Bubblegum program id are parameters of the transformer. Reading a member
  of a \<^verbatim>\<open>Pda\<close> by name gives the member's value, and \<^verbatim>\<open>undefined\<close> for a name that the object
  and its classes do not have: the data members are \<^verbatim>\<open>_bn\<close> (the number of the key, kept
  here as the key) and \<^verbatim>\<open>bump\<close>, and the methods of \<^verbatim>\<open>PublicKey\<close> are \<^verbatim>\<open>equals\<close>,
  \<^verbatim>\<open>toBase58\<close>, \<^verbatim>\<open>toJSON\<close>, \<^verbatim>\<open>toBytes\<close>, \<^verbatim>\<open>toBuffer\<close>, \<^verbatim>\<open>toString\<close> and \<^verbatim>\<open>encode\<close>.
\<close>

datatype Pda = Pda pubkey nat

datatype sdk_value = KeyValue pubkey | NumberValue nat | Method string

record sdk =
  BUBBLEGUM_PROGRAM_ID :: pubkey
  findProgramAddressSync :: "8 word list list \<Rightarrow> pubkey \<Rightarrow> js_error + pubkey \<times> nat"

definition Pda_find :: "sdk \<Rightarrow> pubkey \<Rightarrow> 8 word list list \<Rightarrow> js_error + Pda" where
  "Pda_find sdk programId seeds =
     (case findProgramAddressSync sdk seeds programId of
        Inl e \<Rightarrow> Inl e
      | Inr (publicKey, bump) \<Rightarrow> Inr (Pda publicKey bump))"

fun Pda_member :: "Pda \<Rightarrow> string \<Rightarrow> sdk_value option" where
  "Pda_member (Pda publicKey bump) m =
     (if m = ''bump'' then Some (NumberValue bump)
      else if m = ''_bn'' then Some (KeyValue publicKey)
      else if m \<in> set [''equals'', ''toBase58'', ''toJSON'', ''toBytes'', ''toBuffer'',
                        ''toString'', ''encode'']
           then Some (Method m)
      else None)"

subsection \<open>The transformers\<close>

text \<open>
  The SDK's result types, with the fields the transformers set. A \<^verbatim>\<open>BigNumber\<close> is the
  integer it holds; an \<^verbatim>\<open>Amount\<close> is \<^verbatim>\<open>amount(basisPoints, currency)\<close>. The \<open>address\<close> of a
  \<open>Metadata\<close> holds what the source reads from the \<^verbatim>\<open>Pda\<close>, \<open>None\<close> for \<^verbatim>\<open>undefined\<close>.
\<close>

record SplTokenCurrency =
  symbol :: string
  decimals :: nat
  namespace :: string

record Amount =
  basisPoints :: nat
  currency :: SplTokenCurrency

record Mint =
  model :: string
  address :: pubkey
  mintAuthorityAddress :: pubkey
  freezeAuthorityAddress :: pubkey
  decimals :: nat
  "supply" :: Amount
  isWrappedSol :: bool
  currency :: SplTokenCurrency

datatype TokenStandard =
  NonFungible | FungibleAsset | Fungible | NonFungibleEdition | ProgrammableNonFungible

record collection_ref =
  address :: pubkey
  verified :: bool

record Metadata =
  model :: string
  address :: "sdk_value option"
  mintAddress :: pubkey
  updateAuthorityAddress :: pubkey
  name :: string
  symbol :: string
  json :: "asset_json option"
  jsonLoaded :: bool
  uri :: string
  isMutable :: bool
  primarySaleHappened :: bool
  sellerFeeBasisPoints :: nat
  creators :: "creator list"
  editionNonce :: nat
  tokenStandard :: TokenStandard
  collection :: "collection_ref option"
  compression :: compression
  collectionDetails :: "unit option"
  uses :: "unit option"
  programmableConfig :: "unit option"

text \<open>
  \<^verbatim>\<open>toMintFromReadApiAsset\<close>: the three \<^verbatim>\<open>new PublicKey(input.id)\<close> of the object literal, in
  order; the first that throws ends the call.
\<close>

definition toMintFromReadApiAsset :: "ReadApiAsset \<Rightarrow> js_error + Mint" where
  "toMintFromReadApiAsset input =
     (let currency = \<lparr>SplTokenCurrency.symbol = ''Token'', SplTokenCurrency.decimals = 0,
                      namespace = ''spl-token''\<rparr>
      in case new_PublicKey (ReadApiAsset.id' input) of
           Inl e \<Rightarrow> Inl e
         | Inr address' \<Rightarrow>
        (case new_PublicKey (ReadApiAsset.id' input) of
           Inl e \<Rightarrow> Inl e
         | Inr mintAuthorityAddress' \<Rightarrow>
        (case new_PublicKey (ReadApiAsset.id' input) of
           Inl e \<Rightarrow> Inl e
         | Inr freezeAuthorityAddress' \<Rightarrow>
             Inr \<lparr>Mint.model = ''mint'',
                  Mint.address = address',
                  mintAuthorityAddress = mintAuthorityAddress',
                  freezeAuthorityAddress = freezeAuthorityAddress',
                  Mint.decimals = 0,
                  Mint.supply = \<lparr>basisPoints = 1, Amount.currency = currency\<rparr>,
                  isWrappedSol = False,
                  Mint.currency = currency\<rparr>)))"

text \<open>
  \<^verbatim>\<open>toMetadataFromReadApiAsset\<close>: the update authority is looked up and checked first;
  then the object literal is evaluated in the order of its properties, and the first
  construction that throws ends the call: the seeds (the key of the tree, the bytes of
  the leaf index), \<^verbatim>\<open>Pda.find\<close> and the read of its \<^verbatim>\<open>data\<close>, the key of the asset, the key of
  the update authority, and, when there is a collection entry, the key of the collection.
\<close>

definition toMetadataFromReadApiAsset :: "sdk \<Rightarrow> ReadApiAsset \<Rightarrow> js_error + Metadata" where
  "toMetadataFromReadApiAsset sdk input =
     (let updateAuthority =
            (case authorities input of
               None \<Rightarrow> None
             | Some as \<Rightarrow> find (\<lambda>a. ''full'' \<in> set (scopes a)) as)
      in case updateAuthority of
           None \<Rightarrow> Inl (ReadApiError ''No update authority with full scope found.'' None)
         | Some updateAuthority \<Rightarrow>
        (let collection =
               find (\<lambda>g. group_key g = ''collection'') (ReadApiAsset.grouping input)
         in case new_PublicKey (tree (ReadApiAsset.compression input)) of
              Inl e \<Rightarrow> Inl e
            | Inr treeKey \<Rightarrow>
           (case new_BN (leaf_id (ReadApiAsset.compression input)) of
              Inl e \<Rightarrow> Inl e
            | Inr leaf \<Rightarrow>
           (case toArray_le leaf 8 of
              Inl e \<Rightarrow> Inl e
            | Inr leafBytes \<Rightarrow>
           (case Pda_find sdk (BUBBLEGUM_PROGRAM_ID sdk)
                   [Buffer_from_utf8 ''asset'', toBuffer treeKey, leafBytes] of
              Inl e \<Rightarrow> Inl e
            | Inr pda \<Rightarrow>
           (case new_PublicKey (ReadApiAsset.id' input) of
              Inl e \<Rightarrow> Inl e
            | Inr mintAddress' \<Rightarrow>
           (case new_PublicKey (authority.address updateAuthority) of
              Inl e \<Rightarrow> Inl e
            | Inr updateAuthorityAddress' \<Rightarrow>
           (case (case collection of
                    Some c \<Rightarrow>
                      (case new_PublicKey (group_value c) of
                         Inl e \<Rightarrow> Inl e
                       | Inr collectionKey \<Rightarrow>
                           Inr (Some \<lparr>collection_ref.address = collectionKey,
                                      collection_ref.verified = False\<rparr>))
                  | None \<Rightarrow> Inr None) of
              Inl e \<Rightarrow> Inl e
            | Inr collectionRef \<Rightarrow>
                Inr
                  \<lparr>model = ''metadata'',
                   address = Pda_member pda ''data'',
                   mintAddress = mintAddress',
                   updateAuthorityAddress = updateAuthorityAddress',
                   name = (case content.metadata (content input) of
                             None \<Rightarrow> []
                           | Some m \<Rightarrow> (case asset_json.name m of None \<Rightarrow> [] | Some n \<Rightarrow> n)),
                   symbol = (case content.metadata (content input) of
                               None \<Rightarrow> []
                             | Some m \<Rightarrow> (case asset_json.symbol m of None \<Rightarrow> [] | Some n \<Rightarrow> n)),
                   json = content.metadata (content input),
                   jsonLoaded = True,
                   uri = json_uri (content input),
                   isMutable = mutable input,
                   primarySaleHappened = primary_sale_happened (royalty input),
                   sellerFeeBasisPoints = basis_points (royalty input),
                   creators = ReadApiAsset.creators input,
                   editionNonce = edition_nonce (ReadApiAsset.supply input),
                   tokenStandard = NonFungible,
                   collection = collectionRef,
                   compression = ReadApiAsset.compression input,
                   collectionDetails = None,
                   uses = None,
                   programmableConfig = None\<rparr>))))))))"

section \<open>Assets for the concrete cases\<close>

text \<open>
  \<open>fixture\<close> is the asset of the spec's end-to-end scenario: address \<^verbatim>\<open>Addr1\<close>, one
  authority \<^verbatim>\<open>Auth1\<close> with scope \<^verbatim>\<open>full\<close>, one grouping entry for the collection \<^verbatim>\<open>Coll1\<close>;
  none of its addresses is the text of a public key. \<open>chain_asset\<close> is the same asset
  with the addresses of programs of the chain in their place, each the base-58 text of 32
  bytes. The variants have no authority with full scope, no authorities list, and no
  collection entry. \<open>plain_sdk\<close> stands for the SDK in the concrete cases: a derivation
  that succeeds, with a bump taken from the seeds.
\<close>

definition fixture :: ReadApiAsset where
  "fixture =
     \<lparr>id' = ''Addr1'',
      authorities = Some [\<lparr>authority.address = ''Auth1'', scopes = [''full'']\<rparr>],
      grouping = [\<lparr>group_key = ''collection'', group_value = ''Coll1''\<rparr>],
      compression = \<lparr>tree = ''Tree1'', leaf_id = 258\<rparr>,
      supply = \<lparr>print_current_supply = 0, print_max_supply = 0, edition_nonce = 0\<rparr>,
      royalty = \<lparr>basis_points = 500, primary_sale_happened = False\<rparr>,
      content = \<lparr>metadata = Some \<lparr>asset_json.name = Some ''NFT Name'',
                                     asset_json.symbol = Some ''SSNC''\<rparr>,
                 json_uri = ''https://supersweetcollection.notarealurl/token.json''\<rparr>,
      creators = [\<lparr>creator.address = ''Creator1'', share = 100, creator.verified = False\<rparr>],
      mutable = False\<rparr>"

definition fixture_ungrouped :: ReadApiAsset where
  "fixture_ungrouped =
     fixture\<lparr>ReadApiAsset.grouping := [\<lparr>group_key = ''series'', group_value = ''S1''\<rparr>]\<rparr>"

definition chain_asset :: ReadApiAsset where
  "chain_asset =
     fixture
       \<lparr>id' := ''noopb9bkMVfRPU8AsbpTUg8AQkHtKwMYZiFUjNRtMmV'',
        authorities :=
          Some [\<lparr>authority.address = ''TokenkegQfeZyiNwAJbNbGKPFXCWuBvf9Ss623VQ5DA'',
                 scopes = [''full'']\<rparr>],
        ReadApiAsset.grouping :=
          [\<lparr>group_key = ''collection'',
            group_value = ''metaqbxxUerdq28cj1RbAWkYQm3ybzjb6a8bt518x1s''\<rparr>],
        ReadApiAsset.compression :=
          \<lparr>tree = ''cmtDvXumGCrqC1Age74AVPhSRVXJMd8PJS91L8KbNCK'', leaf_id = 258\<rparr>\<rparr>"



definition chain_asset_ungrouped :: ReadApiAsset where
  "chain_asset_ungrouped =
     chain_asset\<lparr>ReadApiAsset.grouping := [\<lparr>group_key = ''series'', group_value = ''S1''\<rparr>]\<rparr>"

definition plain_sdk :: sdk where
  "plain_sdk =
     \<lparr>BUBBLEGUM_PROGRAM_ID = PublicKey ''BGUMAp9Gq7iTEuizy4pqaxsTyUCBK68MDfK752saRPUY'',
      findProgramAddressSync =
        (\<lambda>seeds programId. Inr (programId, 255 - length (concat seeds)))\<rparr>"

section \<open>The client: what is sent and what comes back\<close>

text \<open>
  A call with the default id posts exactly one request, \<open>posted m p\<close>, and its outcome is
  decided by what the endpoint does with that request.
\<close>

lemma callReadApi_default_id:
  "callReadApi fetch this \<lparr>method = m, id' = None, params = p\<rparr> sent =
     (case fetch (rpcEndpoint this) (posted m p) of
        Inl e \<Rightarrow> Inl (ReadApiError ''Failed to call ReadAPI'' (error_instance e))
      | Inr response \<Rightarrow>
          if \<not> ok response
          then Inl (ReadApiError ''Failed to call ReadAPI''
                      (Some (Error (''HTTP '' @ string_of_nat (status response)))))
          else (case http_response.json response of
                  Inl e \<Rightarrow> Inl (ReadApiError ''Failed to call ReadAPI'' (error_instance e))
                | Inr v \<Rightarrow> Inr v),
      sent @ [(rpcEndpoint this, posted m p)])"
  by (simp add: callReadApi_def posted_def Let_def split: sum.splits)

lemma callReadApi_sent:
  "snd (callReadApi fetch this \<lparr>method = m, id' = None, params = p\<rparr> sent) =
     sent @ [(rpcEndpoint this, posted m p)]"
  by (simp add: callReadApi_default_id)

lemma callReadApi_error:
  "fst (callReadApi fetch this request sent) = Inl e \<Longrightarrow>
     \<exists>c. e = ReadApiError ''Failed to call ReadAPI'' c"
  by (auto simp add: callReadApi_def Let_def split: sum.splits if_splits)

lemma callReadApi_value:
  "fst (callReadApi fetch this \<lparr>method = m, id' = None, params = p\<rparr> sent) = Inr v
     \<longleftrightarrow> answers fetch this (posted m p) v"
  by (auto simp add: callReadApi_default_id answers_def split: sum.splits)

text \<open>
  The four failure modes of the exchange itself: the request does not get through, the
  status is not a success, the body does not decode. Each gives the \<^verbatim>\<open>ReadApiError\<close> of
  \<^verbatim>\<open>callReadApi\<close>, with the cause when the thrown value is an \<^verbatim>\<open>Error\<close>.
\<close>

lemma callReadApi_failure_modes:
  "fetch (rpcEndpoint this) (posted m p) = Inl e \<Longrightarrow>
     fst (callReadApi fetch this \<lparr>method = m, id' = None, params = p\<rparr> sent) =
       Inl (ReadApiError ''Failed to call ReadAPI'' (error_instance e))"
  "fetch (rpcEndpoint this) (posted m p) = Inr response \<Longrightarrow> \<not> ok response \<Longrightarrow>
     fst (callReadApi fetch this \<lparr>method = m, id' = None, params = p\<rparr> sent) =
       Inl (ReadApiError ''Failed to call ReadAPI''
              (Some (Error (''HTTP '' @ string_of_nat (status response)))))"
  "fetch (rpcEndpoint this) (posted m p) = Inr response \<Longrightarrow> ok response \<Longrightarrow>
     http_response.json response = Inl e \<Longrightarrow>
     fst (callReadApi fetch this \<lparr>method = m, id' = None, params = p\<rparr> sent) =
       Inl (ReadApiError ''Failed to call ReadAPI'' (error_instance e))"
  by (simp_all add: callReadApi_default_id)

text \<open>
  The code after the call, common to the four operations: the outcome in terms of the
  outcome of \<^verbatim>\<open>callReadApi\<close>, and the requests issued, which it leaves as they are.
\<close>

lemma after_call_fst:
  "fst (case r of
          (Inl e, sent') \<Rightarrow> (Inl e, sent')
        | (Inr response, sent') \<Rightarrow>
            (case destructure_result response of
               Inl e \<Rightarrow> (Inl e, sent')
             | Inr result \<Rightarrow>
                 if \<not> truthy result then (Inl (ReadApiError m None), sent')
                 else (Inr result, sent'))) =
   (case fst r of
      Inl e \<Rightarrow> Inl e
    | Inr response \<Rightarrow>
        (case destructure_result response of
           Inl e \<Rightarrow> Inl e
         | Inr result \<Rightarrow> if truthy result then Inr result else Inl (ReadApiError m None)))"
  by (cases r) (auto split: sum.splits)

lemma after_call_snd:
  "snd (case r of
          (Inl e, sent') \<Rightarrow> (Inl e, sent')
        | (Inr response, sent') \<Rightarrow>
            (case destructure_result response of
               Inl e \<Rightarrow> (Inl e, sent')
             | Inr result \<Rightarrow>
                 if \<not> truthy result then (Inl (ReadApiError m None), sent')
                 else (Inr result, sent'))) = snd r"
  by (cases r) (auto split: sum.splits)

lemma destructure_result_Inl:
  "destructure_result v = Inl e \<Longrightarrow>
     (v = JNull \<or> v = JUndefined) \<and> \<not> is_ReadApiError e"
  by (cases v) auto

lemma destructure_result_Inr:
  "destructure_result v = Inr x \<Longrightarrow> truthy x \<Longrightarrow>
     \<exists>kvs. v = JObject kvs \<and> map_of kvs ''result'' = Some x"
  by (cases v) (auto simp add: property_def split: option.splits)

lemma destructure_result_object:
  "destructure_result (JObject kvs) =
     Inr (case map_of kvs ''result'' of None \<Rightarrow> JUndefined | Some v \<Rightarrow> v)"
  by (simp add: property_def)

text \<open>The four operations, unfolded to the outcome of the exchange.\<close>

lemma getAsset_fst:
  "fst (getAsset fetch this assetId sent) =
     (case fst (callReadApi fetch this
                  \<lparr>method = ''getAsset'', id' = None,
                   params = JObject [(''id'', JString (toBase58 assetId))]\<rparr> sent) of
        Inl e \<Rightarrow> Inl e
      | Inr response \<Rightarrow>
          (case destructure_result response of
             Inl e \<Rightarrow> Inl e
           | Inr result \<Rightarrow>
               if truthy result then Inr result else Inl (ReadApiError ''No asset returned'' None)))"
  by (simp add: getAsset_def after_call_fst)

lemma getAssetProof_fst:
  "fst (getAssetProof fetch this assetId sent) =
     (case fst (callReadApi fetch this
                  \<lparr>method = ''getAssetProof'', id' = None,
                   params = JObject [(''id'', JString (toBase58 assetId))]\<rparr> sent) of
        Inl e \<Rightarrow> Inl e
      | Inr response \<Rightarrow>
          (case destructure_result response of
             Inl e \<Rightarrow> Inl e
           | Inr result \<Rightarrow>
               if truthy result then Inr result
               else Inl (ReadApiError ''No asset proof returned'' None)))"
  by (simp add: getAssetProof_def after_call_fst)

lemma list_query_fst:
  assumes "validatePagination (property input ''page'') (property input ''before'')
             (property input ''after'') = Inr ()"
  shows "fst (getAssetsByOwner fetch this input sent) =
     (case fst (callReadApi fetch this
                  \<lparr>method = ''getAssetsByOwner'', id' = None,
                   params = JObject (list_params input)\<rparr> sent) of
        Inl e \<Rightarrow> Inl e
      | Inr response \<Rightarrow>
          (case destructure_result response of
             Inl e \<Rightarrow> Inl e
           | Inr result \<Rightarrow>
               if truthy result then Inr result
               else Inl (ReadApiError ''No results returned'' None)))"
    and "fst (getAssetsByGroup fetch this input sent) =
     (case fst (callReadApi fetch this
                  \<lparr>method = ''getAssetsByGroup'', id' = None,
                   params = JObject (list_params input)\<rparr> sent) of
        Inl e \<Rightarrow> Inl e
      | Inr response \<Rightarrow>
          (case destructure_result response of
             Inl e \<Rightarrow> Inl e
           | Inr result \<Rightarrow>
               if truthy result then Inr result
               else Inl (ReadApiError ''No results returned'' None)))"
  using assms by (simp_all add: getAssetsByOwner_def getAssetsByGroup_def after_call_fst)

lemma list_query_sent:
  assumes "validatePagination (property input ''page'') (property input ''before'')
             (property input ''after'') = Inr ()"
  shows "snd (getAssetsByOwner fetch this input sent) =
           sent @ [(rpcEndpoint this, posted ''getAssetsByOwner'' (JObject (list_params input)))]"
    and "snd (getAssetsByGroup fetch this input sent) =
           sent @ [(rpcEndpoint this, posted ''getAssetsByGroup'' (JObject (list_params input)))]"
  using assms
  by (simp_all add: getAssetsByOwner_def getAssetsByGroup_def after_call_snd callReadApi_sent)

section \<open>Pagination\<close>

lemma truthy_logical_or: "truthy (logical_or a b) = (truthy a \<or> truthy b)"
  by (simp add: logical_or_def)

lemma validatePagination_Inl:
  "typeof page = ''number'' \<Longrightarrow> truthy b \<or> truthy a \<Longrightarrow>
     validatePagination page b a =
       Inl (ReadApiError
              ''Pagination Error. Only one pagination parameter supported per query.'' None)"
  by (simp add: validatePagination_def truthy_logical_or)

lemma validatePagination_Inr:
  "\<not> (typeof page = ''number'' \<and> (truthy b \<or> truthy a)) \<Longrightarrow>
     validatePagination page b a = Inr ()"
  by (simp add: validatePagination_def truthy_logical_or)

lemma outcome_not_pagination:
  assumes "\<And>e. r = Inl e \<Longrightarrow> \<exists>c. e = ReadApiError ''Failed to call ReadAPI'' c"
  shows "(case r of
      Inl e \<Rightarrow> Inl e
    | Inr response \<Rightarrow>
        (case destructure_result response of
           Inl e \<Rightarrow> Inl e
         | Inr result \<Rightarrow>
             if truthy result then Inr result
             else Inl (ReadApiError ''No results returned'' None)))
     \<noteq> Inl (ReadApiError
       ''Pagination Error. Only one pagination parameter supported per query.'' None)"
proof (cases r)
  case (Inl e)
  with assms [OF Inl] show ?thesis by auto
next
  case (Inr response)
  then show ?thesis
    by (cases "destructure_result response")
       (auto dest: destructure_result_Inl)
qed

text \<open>
  C1, as amended. A call of \<^verbatim>\<open>getAssetsByOwner\<close> or \<^verbatim>\<open>getAssetsByGroup\<close> whose input has a
  numeric page together with a truthy \<^verbatim>\<open>before\<close> or \<^verbatim>\<open>after\<close> (a cursor that is not the empty
  string) fails with the pagination error, and the list of issued requests is unchanged:
  nothing is sent.
\<close>

theorem page_with_cursor_fails_before_request:
  assumes "typeof (property input ''page'') = ''number''"
    and "truthy (property input ''before'') \<or> truthy (property input ''after'')"
  shows "getAssetsByOwner fetch this input sent =
           (Inl (ReadApiError
              ''Pagination Error. Only one pagination parameter supported per query.'' None), sent)
       \<and> getAssetsByGroup fetch this input sent =
           (Inl (ReadApiError
              ''Pagination Error. Only one pagination parameter supported per query.'' None), sent)"
  using assms by (simp add: getAssetsByOwner_def getAssetsByGroup_def validatePagination_Inl)

text \<open>The amended C1 at page 2 with an \<^verbatim>\<open>after\<close> cursor.\<close>

theorem page_with_cursor_fails_before_request_witness:
  "typeof (property page_and_after ''page'') = ''number''
   \<and> (truthy (property page_and_after ''before'') \<or> truthy (property page_and_after ''after''))
   \<and> getAssetsByOwner (fetch_responding 200 (Inr (JObject [(''result'', asset_list)])))
        endpoint page_and_after [] =
        (Inl (ReadApiError
           ''Pagination Error. Only one pagination parameter supported per query.'' None), [])"
proof -
  have p: "typeof (property page_and_after ''page'') = ''number''"
    by (simp add: page_and_after_def property_def)
  have c: "truthy (property page_and_after ''before'') \<or> truthy (property page_and_after ''after'')"
    by (simp add: page_and_after_def property_def)
  from page_with_cursor_fails_before_request [OF p c] p c show ?thesis by blast
qed

text \<open>
  C1 as stated fails where the cursor is the empty string: with \<^verbatim>\<open>page: 1\<close> and
  \<^verbatim>\<open>before: ""\<close> the test \<^verbatim>\<open>before || after\<close> is falsy, the call passes validation and the
  request goes out, carrying both \<^verbatim>\<open>page: 1\<close> and \<^verbatim>\<open>before: ""\<close>.
\<close>

theorem empty_cursor_with_page_is_sent:
  "typeof (property page_and_empty_before ''page'') = ''number''
   \<and> property page_and_empty_before ''before'' = JString []
   \<and> getAssetsByOwner (fetch_responding 200 (Inr (JObject [(''result'', asset_list)])))
        endpoint page_and_empty_before [] =
        (Inr asset_list,
         [(''https://rpc.example'',
           posted ''getAssetsByOwner''
             (JObject [(''ownerAddress'', JString ''X''), (''page'', JNumber (Finite 1)),
                       (''before'', JString []), (''after'', JNull), (''limit'', JNull),
                       (''sortBy'', JNull)]))])"
  by (simp add: page_and_empty_before_def property_def getAssetsByOwner_def
      validatePagination_def logical_or_def callReadApi_def fetch_responding_def ok_def
      endpoint_def posted_def list_params_def set_prop_def nullish_coalesce_def asset_list_def)

text \<open>
  C2, as amended. A list query is rejected with the pagination error exactly when its
  input has a numeric page together with a truthy \<^verbatim>\<open>before\<close> or \<^verbatim>\<open>after\<close>, and then nothing
  is sent. No other combination of the three parameters is rejected; in particular a
  \<^verbatim>\<open>before\<close> cursor together with an \<^verbatim>\<open>after\<close> cursor and no page passes.
\<close>

theorem pagination_rejected_iff:
  "(fst (getAssetsByOwner fetch this input sent) =
      Inl (ReadApiError
        ''Pagination Error. Only one pagination parameter supported per query.'' None))
   = (typeof (property input ''page'') = ''number''
      \<and> (truthy (property input ''before'') \<or> truthy (property input ''after'')))
 \<and> (fst (getAssetsByGroup fetch this input sent) =
      Inl (ReadApiError
        ''Pagination Error. Only one pagination parameter supported per query.'' None))
   = (typeof (property input ''page'') = ''number''
      \<and> (truthy (property input ''before'') \<or> truthy (property input ''after'')))
 \<and> (typeof (property input ''page'') = ''number''
      \<and> (truthy (property input ''before'') \<or> truthy (property input ''after''))
     \<longrightarrow> snd (getAssetsByOwner fetch this input sent) = sent
       \<and> snd (getAssetsByGroup fetch this input sent) = sent)"
proof (cases "typeof (property input ''page'') = ''number''
      \<and> (truthy (property input ''before'') \<or> truthy (property input ''after''))")
  case True
  then show ?thesis
    by (simp add: getAssetsByOwner_def getAssetsByGroup_def validatePagination_Inl)
next
  case False
  then have v: "validatePagination (property input ''page'') (property input ''before'')
             (property input ''after'') = Inr ()"
    by (rule validatePagination_Inr)
  have o: "fst (getAssetsByOwner fetch this input sent) \<noteq>
      Inl (ReadApiError
        ''Pagination Error. Only one pagination parameter supported per query.'' None)"
    unfolding list_query_fst [OF v]
    by (rule outcome_not_pagination) (rule callReadApi_error)
  have g: "fst (getAssetsByGroup fetch this input sent) \<noteq>
      Inl (ReadApiError
        ''Pagination Error. Only one pagination parameter supported per query.'' None)"
    unfolding list_query_fst [OF v]
    by (rule outcome_not_pagination) (rule callReadApi_error)
  from False o g show ?thesis by blast
qed

text \<open>
  C2 as stated fails for a \<^verbatim>\<open>before\<close> cursor together with an \<^verbatim>\<open>after\<close> cursor and no page:
  the call is not rejected, and the request carries both cursors and the default page 1.
\<close>

theorem before_and_after_without_page_is_sent:
  "property before_and_after ''page'' = JUndefined
   \<and> property before_and_after ''before'' = JString ''Cursor1''
   \<and> property before_and_after ''after'' = JString ''Cursor2''
   \<and> getAssetsByGroup (fetch_responding 200 (Inr (JObject [(''result'', asset_list)])))
        endpoint before_and_after [] =
        (Inr asset_list,
         [(''https://rpc.example'',
           posted ''getAssetsByGroup''
             (JObject [(''groupKey'', JString ''collection''), (''groupValue'', JString ''Coll1''),
                       (''before'', JString ''Cursor1''), (''after'', JString ''Cursor2''),
                       (''page'', JNumber (Finite 1)), (''limit'', JNull),
                       (''sortBy'', JNull)]))])"
  by (simp add: before_and_after_def property_def getAssetsByGroup_def
      validatePagination_def logical_or_def callReadApi_def fetch_responding_def ok_def
      endpoint_def posted_def list_params_def set_prop_def nullish_coalesce_def asset_list_def)

text \<open>The amended C2 at page 2 with an \<^verbatim>\<open>after\<close> cursor, on an unreachable endpoint.\<close>

theorem pagination_rejected_iff_witness:
  "typeof (property page_and_after ''page'') = ''number''
   \<and> (truthy (property page_and_after ''before'') \<or> truthy (property page_and_after ''after''))
   \<and> snd (getAssetsByGroup (fetch_rejecting (ThrownError (TypeError ''fetch failed'')))
        endpoint page_and_after []) = []
   \<and> snd (getAssetsByOwner (fetch_rejecting (ThrownError (TypeError ''fetch failed'')))
        endpoint page_and_after []) = []"
proof -
  have p: "typeof (property page_and_after ''page'') = ''number''"
    by (simp add: page_and_after_def property_def)
  have c: "truthy (property page_and_after ''before'') \<or> truthy (property page_and_after ''after'')"
    by (simp add: page_and_after_def property_def)
  from pagination_rejected_iff
         [of "fetch_rejecting (ThrownError (TypeError ''fetch failed''))" endpoint page_and_after "[]"]
       p c
  show ?thesis by blast
qed

section \<open>The parameters of the list queries\<close>

lemma property_set_prop:
  "property (set_prop k v obj) k' = (if k' = k then v else property obj k')"
  by (simp add: property_def set_prop_def update_conv')

lemma list_params_property:
  "property (list_params input) k =
     (if k = ''page'' then nullish_coalesce (property input ''page'') (JNumber (Finite 1))
      else if k \<in> {''before'', ''after'', ''limit'', ''sortBy''}
           then nullish_coalesce (property input k) JNull
      else property input k)"
  by (simp add: list_params_def property_set_prop)

lemma five_inserted: "{e} \<union> ({d} \<union> ({c} \<union> ({b} \<union> ({a} \<union> S)))) = S \<union> {a, b, c, d, e}"
  by blast

lemma list_params_keys:
  "fst ` set (list_params input) =
     fst ` set input \<union> {''page'', ''before'', ''after'', ''limit'', ''sortBy''}"
  unfolding list_params_def set_prop_def dom_update by (rule five_inserted)

text \<open>
  C3. A call of \<^verbatim>\<open>getAssetsByOwner\<close> or \<^verbatim>\<open>getAssetsByGroup\<close> with valid pagination posts one
  request, whose parameters are the caller's object with \<^verbatim>\<open>page\<close> defaulting to 1 and
  \<^verbatim>\<open>before\<close>, \<^verbatim>\<open>after\<close>, \<^verbatim>\<open>limit\<close>, \<^verbatim>\<open>sortBy\<close> defaulting to \<^verbatim>\<open>null\<close> where they are omitted
  (\<^verbatim>\<open>undefined\<close> or \<^verbatim>\<open>null\<close>); a supplied value of the five, and every other property of the
  input, is passed through unchanged, and no other property is added.
\<close>

theorem list_query_params_normalized:
  assumes "validatePagination (property input ''page'') (property input ''before'')
             (property input ''after'') = Inr ()"
  shows "snd (getAssetsByOwner fetch this input sent) =
           sent @ [(rpcEndpoint this, posted ''getAssetsByOwner'' (JObject (list_params input)))]
       \<and> snd (getAssetsByGroup fetch this input sent) =
           sent @ [(rpcEndpoint this, posted ''getAssetsByGroup'' (JObject (list_params input)))]
       \<and> property (list_params input) ''page'' =
           (if property input ''page'' = JUndefined \<or> property input ''page'' = JNull
            then JNumber (Finite 1) else property input ''page'')
       \<and> (\<forall>k \<in> {''before'', ''after'', ''limit'', ''sortBy''}.
             property (list_params input) k =
               (if property input k = JUndefined \<or> property input k = JNull
                then JNull else property input k))
       \<and> (\<forall>k. k \<notin> {''page'', ''before'', ''after'', ''limit'', ''sortBy''}
             \<longrightarrow> property (list_params input) k = property input k)
       \<and> fst ` set (list_params input) =
           fst ` set input \<union> {''page'', ''before'', ''after'', ''limit'', ''sortBy''}"
proof -
  have a: "property (list_params input) ''page'' =
           (if property input ''page'' = JUndefined \<or> property input ''page'' = JNull
            then JNumber (Finite 1) else property input ''page'')"
    by (simp add: list_params_property nullish_coalesce_def)
  have b: "\<forall>k \<in> {''before'', ''after'', ''limit'', ''sortBy''}.
             property (list_params input) k =
               (if property input k = JUndefined \<or> property input k = JNull
                then JNull else property input k)"
    by (simp add: list_params_property nullish_coalesce_def)
  have c: "\<forall>k. k \<notin> {''page'', ''before'', ''after'', ''limit'', ''sortBy''}
             \<longrightarrow> property (list_params input) k = property input k"
    by (simp add: list_params_property)
  note s = list_query_sent [OF assms, of fetch this sent]
  show ?thesis
    by (intro conjI) (rule s a b c list_params_keys)+
qed

text \<open>
  C3 at the input \<^verbatim>\<open>{ownerAddress: "X"}\<close>: the parameters sent are
  \<^verbatim>\<open>{ownerAddress: "X", page: 1, before: null, after: null, limit: null, sortBy: null}\<close>.
\<close>

theorem list_query_params_normalized_witness:
  "validatePagination (property owner_only ''page'') (property owner_only ''before'')
     (property owner_only ''after'') = Inr ()
   \<and> snd (getAssetsByOwner (fetch_responding 200 (Inr (JObject [(''result'', asset_list)])))
        endpoint owner_only []) =
       [(''https://rpc.example'',
         posted ''getAssetsByOwner''
           (JObject [(''ownerAddress'', JString ''X''), (''page'', JNumber (Finite 1)),
                     (''before'', JNull), (''after'', JNull), (''limit'', JNull),
                     (''sortBy'', JNull)]))]
   \<and> property (list_params owner_only) ''ownerAddress'' = JString ''X''"
proof -
  have v: "validatePagination (property owner_only ''page'') (property owner_only ''before'')
     (property owner_only ''after'') = Inr ()"
    by (simp add: owner_only_def property_def validatePagination_def)
  have l: "list_params owner_only =
            [(''ownerAddress'', JString ''X''), (''page'', JNumber (Finite 1)),
             (''before'', JNull), (''after'', JNull), (''limit'', JNull), (''sortBy'', JNull)]"
    by (simp add: owner_only_def list_params_def set_prop_def property_def nullish_coalesce_def)
  have e: "rpcEndpoint endpoint = ''https://rpc.example''"
    by (simp add: endpoint_def)
  have p: "property (list_params owner_only) ''ownerAddress'' = JString ''X''"
    by (simp add: l property_def)
  from list_query_params_normalized
         [OF v, THEN conjunct1,
          of "fetch_responding 200 (Inr (JObject [(''result'', asset_list)]))" endpoint "[]"]
  have "snd (getAssetsByOwner (fetch_responding 200 (Inr (JObject [(''result'', asset_list)])))
        endpoint owner_only []) =
       [(''https://rpc.example'',
         posted ''getAssetsByOwner''
           (JObject [(''ownerAddress'', JString ''X''), (''page'', JNumber (Finite 1)),
                     (''before'', JNull), (''after'', JNull), (''limit'', JNull),
                     (''sortBy'', JNull)]))]"
    by (simp only: l e append_Nil)
  with v p show ?thesis by (intro conjI)
qed

section \<open>The result of a call\<close>

lemma falsy_outcome:
  assumes "r = Inr (JObject kvs)" and "\<not> truthy (property kvs ''result'')"
  shows "(case r of
      Inl e \<Rightarrow> Inl e
    | Inr response \<Rightarrow>
        (case destructure_result response of
           Inl e \<Rightarrow> Inl e
         | Inr result \<Rightarrow> if truthy result then Inr result else Inl (ReadApiError m None)))
     = Inl (ReadApiError m None)"
  using assms by simp

lemma answers_fst:
  "answers fetch this (posted m p) v \<Longrightarrow>
     fst (callReadApi fetch this \<lparr>method = m, id' = None, params = p\<rparr> sent) = Inr v"
  by (simp add: callReadApi_value)

lemma falsy_json_values:
  "\<not> truthy JNull \<and> \<not> truthy (JBool False) \<and> \<not> truthy (JNumber (Finite 0))
   \<and> \<not> truthy (JString [])"
  by simp

text \<open>
  A response whose body is an object without a \<^verbatim>\<open>result\<close> property: the no-result error of
  the operation.
\<close>

lemma missing_result_is_no_result:
  assumes "map_of kvs ''result'' = None"
  shows "answers fetch this
           (posted ''getAsset'' (JObject [(''id'', JString (toBase58 assetId))])) (JObject kvs)
         \<Longrightarrow> fst (getAsset fetch this assetId sent) =
               Inl (ReadApiError ''No asset returned'' None)"
    and "answers fetch this
           (posted ''getAssetProof'' (JObject [(''id'', JString (toBase58 assetId))])) (JObject kvs)
         \<Longrightarrow> fst (getAssetProof fetch this assetId sent) =
               Inl (ReadApiError ''No asset proof returned'' None)"
proof -
  from assms have f: "\<not> truthy (property kvs ''result'')"
    by (simp add: property_def)
  show "answers fetch this
           (posted ''getAsset'' (JObject [(''id'', JString (toBase58 assetId))])) (JObject kvs)
         \<Longrightarrow> fst (getAsset fetch this assetId sent) =
               Inl (ReadApiError ''No asset returned'' None)"
    unfolding getAsset_fst by (rule falsy_outcome [OF answers_fst f])
  show "answers fetch this
           (posted ''getAssetProof'' (JObject [(''id'', JString (toBase58 assetId))])) (JObject kvs)
         \<Longrightarrow> fst (getAssetProof fetch this assetId sent) =
               Inl (ReadApiError ''No asset proof returned'' None)"
    unfolding getAssetProof_fst by (rule falsy_outcome [OF answers_fst f])
qed

text \<open>
  C10. When the endpoint answers an operation's request with an object whose \<^verbatim>\<open>result\<close>
  property is present but falsy, \<^verbatim>\<open>getAsset\<close>, \<^verbatim>\<open>getAssetProof\<close> and, with valid pagination,
  \<^verbatim>\<open>getAssetsByOwner\<close> and \<^verbatim>\<open>getAssetsByGroup\<close> fail with their no-result \<^verbatim>\<open>ReadApiError\<close> and
  do not return the value: the check is on the truthiness of \<^verbatim>\<open>result\<close>. The falsy values a
  body can hold are \<^verbatim>\<open>null\<close>, \<^verbatim>\<open>false\<close>, \<^verbatim>\<open>0\<close> and the empty string (\<open>falsy_json_values\<close>),
  and the outcome is the one of a missing \<^verbatim>\<open>result\<close> (\<open>missing_result_is_no_result\<close>).
\<close>

theorem falsy_result_is_no_result:
  assumes "map_of kvs ''result'' = Some v"
    and "\<not> truthy v"
  shows "(answers fetch this
            (posted ''getAsset'' (JObject [(''id'', JString (toBase58 assetId))])) (JObject kvs)
          \<longrightarrow> fst (getAsset fetch this assetId sent) =
                Inl (ReadApiError ''No asset returned'' None))
       \<and> (answers fetch this
            (posted ''getAssetProof'' (JObject [(''id'', JString (toBase58 assetId))])) (JObject kvs)
          \<longrightarrow> fst (getAssetProof fetch this assetId sent) =
                Inl (ReadApiError ''No asset proof returned'' None))
       \<and> (validatePagination (property input ''page'') (property input ''before'')
             (property input ''after'') = Inr ()
          \<and> answers fetch this
              (posted ''getAssetsByOwner'' (JObject (list_params input))) (JObject kvs)
          \<longrightarrow> fst (getAssetsByOwner fetch this input sent) =
                Inl (ReadApiError ''No results returned'' None))
       \<and> (validatePagination (property input ''page'') (property input ''before'')
             (property input ''after'') = Inr ()
          \<and> answers fetch this
              (posted ''getAssetsByGroup'' (JObject (list_params input))) (JObject kvs)
          \<longrightarrow> fst (getAssetsByGroup fetch this input sent) =
                Inl (ReadApiError ''No results returned'' None))"
proof -
  from assms have f: "\<not> truthy (property kvs ''result'')"
    by (simp add: property_def)
  have a: "answers fetch this
            (posted ''getAsset'' (JObject [(''id'', JString (toBase58 assetId))])) (JObject kvs)
          \<longrightarrow> fst (getAsset fetch this assetId sent) =
                Inl (ReadApiError ''No asset returned'' None)"
    unfolding getAsset_fst
    by (rule impI) (rule falsy_outcome [OF answers_fst f])
  have b: "answers fetch this
            (posted ''getAssetProof'' (JObject [(''id'', JString (toBase58 assetId))])) (JObject kvs)
          \<longrightarrow> fst (getAssetProof fetch this assetId sent) =
                Inl (ReadApiError ''No asset proof returned'' None)"
    unfolding getAssetProof_fst
    by (rule impI) (rule falsy_outcome [OF answers_fst f])
  have c: "validatePagination (property input ''page'') (property input ''before'')
             (property input ''after'') = Inr ()
          \<and> answers fetch this
              (posted ''getAssetsByOwner'' (JObject (list_params input))) (JObject kvs)
          \<longrightarrow> fst (getAssetsByOwner fetch this input sent) =
                Inl (ReadApiError ''No results returned'' None)"
  proof (intro impI, elim conjE)
    assume v: "validatePagination (property input ''page'') (property input ''before'')
             (property input ''after'') = Inr ()"
    assume "answers fetch this
              (posted ''getAssetsByOwner'' (JObject (list_params input))) (JObject kvs)"
    then show "fst (getAssetsByOwner fetch this input sent) =
                Inl (ReadApiError ''No results returned'' None)"
      unfolding list_query_fst [OF v]
      by (rule falsy_outcome [OF answers_fst f])
  qed
  have d: "validatePagination (property input ''page'') (property input ''before'')
             (property input ''after'') = Inr ()
          \<and> answers fetch this
              (posted ''getAssetsByGroup'' (JObject (list_params input))) (JObject kvs)
          \<longrightarrow> fst (getAssetsByGroup fetch this input sent) =
                Inl (ReadApiError ''No results returned'' None)"
  proof (intro impI, elim conjE)
    assume v: "validatePagination (property input ''page'') (property input ''before'')
             (property input ''after'') = Inr ()"
    assume "answers fetch this
              (posted ''getAssetsByGroup'' (JObject (list_params input))) (JObject kvs)"
    then show "fst (getAssetsByGroup fetch this input sent) =
                Inl (ReadApiError ''No results returned'' None)"
      unfolding list_query_fst [OF v]
      by (rule falsy_outcome [OF answers_fst f])
  qed
  from a b c d show ?thesis by (intro conjI)
qed

lemma fetch_responding_answers:
  "200 \<le> code \<Longrightarrow> code \<le> 299 \<Longrightarrow> answers (fetch_responding code (Inr v)) this init v"
  by (simp add: answers_def fetch_responding_def ok_def)

text \<open>C10 at the body \<^verbatim>\<open>{"result": 0}\<close>, for \<^verbatim>\<open>getAsset\<close> and \<^verbatim>\<open>getAssetsByOwner\<close>.\<close>

theorem falsy_result_is_no_result_witness:
  "map_of [(''result'', JNumber (Finite 0))] ''result'' = Some (JNumber (Finite 0))
   \<and> \<not> truthy (JNumber (Finite 0))
   \<and> answers (fetch_responding 200 (Inr (JObject [(''result'', JNumber (Finite 0))]))) endpoint
        (posted ''getAsset'' (JObject [(''id'', JString (toBase58 (PublicKey ''Addr1'')))]))
        (JObject [(''result'', JNumber (Finite 0))])
   \<and> validatePagination (property owner_only ''page'') (property owner_only ''before'')
        (property owner_only ''after'') = Inr ()
   \<and> answers (fetch_responding 200 (Inr (JObject [(''result'', JNumber (Finite 0))]))) endpoint
        (posted ''getAssetsByOwner'' (JObject (list_params owner_only)))
        (JObject [(''result'', JNumber (Finite 0))])
   \<and> fst (getAsset (fetch_responding 200 (Inr (JObject [(''result'', JNumber (Finite 0))])))
          endpoint (PublicKey ''Addr1'') []) = Inl (ReadApiError ''No asset returned'' None)
   \<and> fst (getAssetsByOwner (fetch_responding 200 (Inr (JObject [(''result'', JNumber (Finite 0))])))
          endpoint owner_only []) = Inl (ReadApiError ''No results returned'' None)"
proof -
  have m: "map_of [(''result'', JNumber (Finite 0))] ''result'' = Some (JNumber (Finite 0))"
    by simp
  have t: "\<not> truthy (JNumber (Finite 0))"
    by simp
  have r: "answers (fetch_responding 200 (Inr (JObject [(''result'', JNumber (Finite 0))]))) endpoint
        (posted ''getAsset'' (JObject [(''id'', JString (toBase58 (PublicKey ''Addr1'')))]))
        (JObject [(''result'', JNumber (Finite 0))])"
    by (rule fetch_responding_answers) simp_all
  have v: "validatePagination (property owner_only ''page'') (property owner_only ''before'')
     (property owner_only ''after'') = Inr ()"
    by (simp add: owner_only_def property_def validatePagination_def)
  have r': "answers (fetch_responding 200 (Inr (JObject [(''result'', JNumber (Finite 0))]))) endpoint
        (posted ''getAssetsByOwner'' (JObject (list_params owner_only)))
        (JObject [(''result'', JNumber (Finite 0))])"
    by (rule fetch_responding_answers) simp_all
  note th = falsy_result_is_no_result
              [OF m t,
               of "fetch_responding 200 (Inr (JObject [(''result'', JNumber (Finite 0))]))"
                  endpoint "PublicKey ''Addr1''" "[]" owner_only]
  from th r have 1: "fst (getAsset (fetch_responding 200 (Inr (JObject [(''result'', JNumber (Finite 0))])))
          endpoint (PublicKey ''Addr1'') []) = Inl (ReadApiError ''No asset returned'' None)"
    by blast
  from th v r' have 2: "fst (getAssetsByOwner (fetch_responding 200 (Inr (JObject [(''result'', JNumber (Finite 0))])))
          endpoint owner_only []) = Inl (ReadApiError ''No results returned'' None)"
    by blast
  from m t r v r' 1 2 show ?thesis by (intro conjI)
qed

text \<open>
  What holds of \<^verbatim>\<open>getAsset\<close> on every endpoint: a returned value is truthy and is the
  \<^verbatim>\<open>result\<close> property of the object that the endpoint answered the request with; a failure
  is a \<^verbatim>\<open>ReadApiError\<close>, unless the endpoint answered with a body that decoded to \<^verbatim>\<open>null\<close>.
\<close>

lemma getAsset_outcome:
  "(case fst (getAsset fetch this assetId sent) of
      Inr x \<Rightarrow> truthy x \<and>
        (\<exists>kvs. answers fetch this
                 (posted ''getAsset'' (JObject [(''id'', JString (toBase58 assetId))])) (JObject kvs)
               \<and> map_of kvs ''result'' = Some x)
    | Inl e \<Rightarrow> is_ReadApiError e \<or>
        answers fetch this
          (posted ''getAsset'' (JObject [(''id'', JString (toBase58 assetId))])) JNull \<or>
        answers fetch this
          (posted ''getAsset'' (JObject [(''id'', JString (toBase58 assetId))])) JUndefined)"
proof (cases "fst (callReadApi fetch this
          \<lparr>method = ''getAsset'', id' = None,
           params = JObject [(''id'', JString (toBase58 assetId))]\<rparr> sent)")
  case (Inl e)
  from callReadApi_error [OF Inl] show ?thesis
    unfolding getAsset_fst by (auto simp add: Inl)
next
  case (Inr v)
  then have f: "answers fetch this
      (posted ''getAsset'' (JObject [(''id'', JString (toBase58 assetId))])) v"
    by (simp only: callReadApi_value)
  show ?thesis
  proof (cases "destructure_result v")
    case (Inl e)
    from destructure_result_Inl [OF Inl] f show ?thesis
      unfolding getAsset_fst by (auto simp add: Inr Inl)
  next
    case r: (Inr x)
    show ?thesis
    proof (cases "truthy x")
      case True
      from destructure_result_Inr [OF r True] f True show ?thesis
        unfolding getAsset_fst by (auto simp add: Inr r)
    next
      case False
      then show ?thesis
        unfolding getAsset_fst by (simp add: Inr r)
    qed
  qed
qed

text \<open>
  C4 says that \<^verbatim>\<open>getAsset\<close> either returns the result carried by the response or fails
  with the no-result error when the response carries none. The code does so for every
  decoded body but one (\<open>getAsset_outcome\<close>, \<open>missing_result_is_no_result\<close>): when the
  endpoint answers with status 200 and the body \<^verbatim>\<open>null\<close>, \<^verbatim>\<open>callReadApi\<close> returns \<^verbatim>\<open>null\<close>,
  and the destructuring \<^verbatim>\<open>const { result } = null\<close> in \<^verbatim>\<open>getAsset\<close>, outside the \<^verbatim>\<open>try\<close>
  block, throws a \<^verbatim>\<open>TypeError\<close>.
\<close>

theorem getAsset_null_body_throws_TypeError:
  "getAsset (fetch_responding 200 (Inr JNull)) endpoint (PublicKey ''Addr1'') [] =
     (Inl (TypeError
        ''Cannot destructure property 'result' of '(intermediate value)' as it is null.''),
      [(''https://rpc.example'', posted ''getAsset'' (JObject [(''id'', JString ''Addr1'')]))])"
  by (simp add: getAsset_def callReadApi_def fetch_responding_def ok_def endpoint_def posted_def)

text \<open>
  C5 says that every failure of a client call surfaces as a \<^verbatim>\<open>ReadApiError\<close> and that no
  other kind of error escapes. Network failures, bad statuses, undecodable bodies and
  missing results do (\<open>callReadApi_failure_modes\<close>, \<open>missing_result_is_no_result\<close>); the
  body \<^verbatim>\<open>null\<close> does not: in each of the other three operations as well it escapes as a
  \<^verbatim>\<open>TypeError\<close>.
\<close>

theorem null_body_error_is_no_ReadApiError:
  "fst (getAssetProof (fetch_responding 200 (Inr JNull)) endpoint (PublicKey ''Addr1'') []) =
     Inl (TypeError
        ''Cannot destructure property 'result' of '(intermediate value)' as it is null.'')
   \<and> fst (getAssetsByOwner (fetch_responding 200 (Inr JNull)) endpoint owner_only []) =
     Inl (TypeError
        ''Cannot destructure property 'result' of '(intermediate value)' as it is null.'')
   \<and> fst (getAssetsByGroup (fetch_responding 200 (Inr JNull)) endpoint before_and_after []) =
     Inl (TypeError
        ''Cannot destructure property 'result' of '(intermediate value)' as it is null.'')
   \<and> \<not> is_ReadApiError (TypeError
        ''Cannot destructure property 'result' of '(intermediate value)' as it is null.'')"
  by (simp add: getAssetProof_def getAssetsByOwner_def getAssetsByGroup_def validatePagination_def
      logical_or_def owner_only_def before_and_after_def property_def
      callReadApi_def fetch_responding_def ok_def endpoint_def)

section \<open>The transformers\<close>

subsection \<open>Public keys and leaf bytes\<close>

lemma new_PublicKey_Inr: "new_PublicKey s = Inr k \<Longrightarrow> k = PublicKey s \<and> toBase58 k = s"
  by (auto simp add: new_PublicKey_def split: sum.splits if_splits)

lemma new_PublicKey_cases:
  "new_PublicKey s = Inr (PublicKey s) \<or> (\<exists>e. new_PublicKey s = Inl e)"
  by (auto simp add: new_PublicKey_def split: sum.splits)

lemma scenario_addresses_are_no_keys:
  "new_PublicKey ''Addr1'' = Inl (Error ''Invalid public key input'')"
  "new_PublicKey ''Tree1'' = Inl (Error ''Invalid public key input'')"
  by (simp_all add: new_PublicKey_def bs58_decode_def base58_alphabet_def bytes_be.simps)

lemma noop_key:
  "new_PublicKey ''noopb9bkMVfRPU8AsbpTUg8AQkHtKwMYZiFUjNRtMmV'' =
     Inr (PublicKey ''noopb9bkMVfRPU8AsbpTUg8AQkHtKwMYZiFUjNRtMmV'')"
  by (simp add: new_PublicKey_def bs58_decode_def base58_alphabet_def bytes_be.simps)

lemma token_key:
  "new_PublicKey ''TokenkegQfeZyiNwAJbNbGKPFXCWuBvf9Ss623VQ5DA'' =
     Inr (PublicKey ''TokenkegQfeZyiNwAJbNbGKPFXCWuBvf9Ss623VQ5DA'')"
  by (simp add: new_PublicKey_def bs58_decode_def base58_alphabet_def bytes_be.simps)

lemma meta_key:
  "new_PublicKey ''metaqbxxUerdq28cj1RbAWkYQm3ybzjb6a8bt518x1s'' =
     Inr (PublicKey ''metaqbxxUerdq28cj1RbAWkYQm3ybzjb6a8bt518x1s'')"
  by (simp add: new_PublicKey_def bs58_decode_def base58_alphabet_def bytes_be.simps)

lemma cmt_key:
  "new_PublicKey ''cmtDvXumGCrqC1Age74AVPhSRVXJMd8PJS91L8KbNCK'' =
     Inr (PublicKey ''cmtDvXumGCrqC1Age74AVPhSRVXJMd8PJS91L8KbNCK'')"
  by (simp add: new_PublicKey_def bs58_decode_def base58_alphabet_def bytes_be.simps)

lemma length_le_bytes: "length (le_bytes n len) = len"
  by (induction len arbitrary: n) simp_all

lemma byte_of_nat_mod: "(of_nat (n mod 256) :: 8 word) = of_nat n"
  by (simp add: word_of_nat_eq_iff take_bit_eq_mod)

lemma le_bytes_nth: "i < len \<Longrightarrow> le_bytes n len ! i = of_nat (n div 256 ^ i)"
proof (induction len arbitrary: n i)
  case 0
  then show ?case by simp
next
  case (Suc len)
  show ?case
  proof (cases i)
    case 0
    then show ?thesis by (simp add: byte_of_nat_mod)
  next
    case (Suc j)
    with Suc.prems have "j < len" by simp
    from Suc.IH [OF this, of "n div 256"] Suc show ?thesis
      by (simp add: div_mult2_eq)
  qed
qed

lemma from_le_le_bytes: "n < 256 ^ len \<Longrightarrow> from_le (le_bytes n len) = n"
proof (induction len arbitrary: n)
  case 0
  then show ?case by simp
next
  case (Suc len)
  from Suc.prems have "n div 256 < 256 ^ len"
    by (simp add: less_mult_imp_div_less mult.commute)
  from Suc.IH [OF this] show ?case
    by (simp add: unat_of_nat)
qed

lemma asset_seed: "Buffer_from_utf8 ''asset'' = [0x61, 0x73, 0x73, 0x65, 0x74]"
  by (simp add: Buffer_from_utf8_def)

text \<open>The bytes of a leaf index: thrown from \<open>2 ^ 53\<close> on, eight bytes below.\<close>

lemma leaf_bytes:
  "(case new_BN n of Inl e \<Rightarrow> Inl e | Inr leaf \<Rightarrow> toArray_le leaf 8) =
     (if n < 2 ^ 53 then Inr (le_bytes n 8) else Inl (Error ''Assertion failed''))"
proof (cases "n < 2 ^ 53")
  case True
  then have "n < 256 ^ 8" by simp
  with True show ?thesis by (simp add: new_BN_def toArray_le_def)
next
  case False
  then show ?thesis by (simp add: new_BN_def)
qed

text \<open>No \<^verbatim>\<open>Pda\<close> has a member \<^verbatim>\<open>data\<close>.\<close>

lemma Pda_has_no_data: "Pda_member pda ''data'' = None"
  by (cases pda) simp

subsection \<open>The mint\<close>

lemma toMint_eq:
  "toMintFromReadApiAsset input =
     (case new_PublicKey (ReadApiAsset.id' input) of
        Inl e \<Rightarrow> Inl e
      | Inr k \<Rightarrow>
          Inr \<lparr>Mint.model = ''mint'', Mint.address = k, mintAuthorityAddress = k,
               freezeAuthorityAddress = k, Mint.decimals = 0,
               Mint.supply =
                 \<lparr>basisPoints = 1,
                  Amount.currency = \<lparr>SplTokenCurrency.symbol = ''Token'',
                                       SplTokenCurrency.decimals = 0,
                                       namespace = ''spl-token''\<rparr>\<rparr>,
               isWrappedSol = False,
               Mint.currency = \<lparr>SplTokenCurrency.symbol = ''Token'',
                                  SplTokenCurrency.decimals = 0,
                                  namespace = ''spl-token''\<rparr>\<rparr>)"
  by (simp add: toMintFromReadApiAsset_def Let_def split: sum.splits)

text \<open>
  C9, as amended. For every asset whose id is the text of a public key (base 58, 32
  bytes), \<^verbatim>\<open>toMintFromReadApiAsset\<close> (the spec's \<^verbatim>\<open>toMintView\<close>) returns a mint with 0
  decimals, a supply of one unit (one basis point of a currency with 0 decimals), and the
  key of the asset's own address as mint authority, as freeze authority and as address.
  For every other id it fails with the error that \<^verbatim>\<open>new PublicKey\<close> throws.
\<close>

theorem toMint_descriptor_for_key:
  "(\<forall>k. new_PublicKey (ReadApiAsset.id' input) = Inr k \<longrightarrow>
      (\<exists>m. toMintFromReadApiAsset input = Inr m
         \<and> Mint.decimals m = 0
         \<and> Mint.supply m =
             \<lparr>basisPoints = 1,
              Amount.currency = \<lparr>SplTokenCurrency.symbol = ''Token'',
                                   SplTokenCurrency.decimals = 0,
                                   namespace = ''spl-token''\<rparr>\<rparr>
         \<and> mintAuthorityAddress m = k
         \<and> freezeAuthorityAddress m = k
         \<and> Mint.address m = k
         \<and> toBase58 k = ReadApiAsset.id' input))
 \<and> (\<forall>e. new_PublicKey (ReadApiAsset.id' input) = Inl e \<longrightarrow>
      toMintFromReadApiAsset input = Inl e)"
  by (auto simp add: toMint_eq dest: new_PublicKey_Inr)

lemma chain_asset_id:
  "ReadApiAsset.id' chain_asset = ''noopb9bkMVfRPU8AsbpTUg8AQkHtKwMYZiFUjNRtMmV''"
  by (simp add: chain_asset_def)

text \<open>The amended C9 at the asset of the chain.\<close>

theorem toMint_descriptor_for_key_witness:
  "new_PublicKey (ReadApiAsset.id' chain_asset) =
     Inr (PublicKey ''noopb9bkMVfRPU8AsbpTUg8AQkHtKwMYZiFUjNRtMmV'')
   \<and> (\<exists>m. toMintFromReadApiAsset chain_asset = Inr m
         \<and> Mint.decimals m = 0
         \<and> basisPoints (Mint.supply m) = 1
         \<and> mintAuthorityAddress m = PublicKey ''noopb9bkMVfRPU8AsbpTUg8AQkHtKwMYZiFUjNRtMmV''
         \<and> freezeAuthorityAddress m = PublicKey ''noopb9bkMVfRPU8AsbpTUg8AQkHtKwMYZiFUjNRtMmV'')"
proof -
  have k: "new_PublicKey (ReadApiAsset.id' chain_asset) =
     Inr (PublicKey ''noopb9bkMVfRPU8AsbpTUg8AQkHtKwMYZiFUjNRtMmV'')"
    by (simp only: chain_asset_id noop_key)
  from toMint_descriptor_for_key [of chain_asset, THEN conjunct1, rule_format, OF k]
  obtain m where "toMintFromReadApiAsset chain_asset = Inr m" "Mint.decimals m = 0"
    "Mint.supply m =
             \<lparr>basisPoints = 1,
              Amount.currency = \<lparr>SplTokenCurrency.symbol = ''Token'',
                                   SplTokenCurrency.decimals = 0,
                                   namespace = ''spl-token''\<rparr>\<rparr>"
    "mintAuthorityAddress m = PublicKey ''noopb9bkMVfRPU8AsbpTUg8AQkHtKwMYZiFUjNRtMmV''"
    "freezeAuthorityAddress m = PublicKey ''noopb9bkMVfRPU8AsbpTUg8AQkHtKwMYZiFUjNRtMmV''"
    by blast
  then have "\<exists>m. toMintFromReadApiAsset chain_asset = Inr m
         \<and> Mint.decimals m = 0
         \<and> basisPoints (Mint.supply m) = 1
         \<and> mintAuthorityAddress m = PublicKey ''noopb9bkMVfRPU8AsbpTUg8AQkHtKwMYZiFUjNRtMmV''
         \<and> freezeAuthorityAddress m = PublicKey ''noopb9bkMVfRPU8AsbpTUg8AQkHtKwMYZiFUjNRtMmV''"
    by simp
  with k show ?thesis by (rule conjI)
qed

text \<open>
  C9 as stated fails on the asset of the spec's scenario: its id \<^verbatim>\<open>Addr1\<close> is not the text
  of a public key, and the first \<^verbatim>\<open>new PublicKey(input.id)\<close> throws.
\<close>

theorem toMint_throws_on_scenario_asset:
  "ReadApiAsset.id' fixture = ''Addr1''
   \<and> toMintFromReadApiAsset fixture = Inl (Error ''Invalid public key input'')"
  by (simp add: toMint_eq fixture_def scenario_addresses_are_no_keys)

subsection \<open>The metadata\<close>



text \<open>
  The transformer with the update authority found: the constructions one after the
  other, as a chain of cases on their outcomes.
\<close>

lemma toMetadata_with_authority:
  assumes "authorities input = Some as"
    and "find (\<lambda>a. ''full'' \<in> set (scopes a)) as = Some ua"
  shows "toMetadataFromReadApiAsset sdk input =
     (case new_PublicKey (tree (ReadApiAsset.compression input)) of
        Inl e \<Rightarrow> Inl e
      | Inr treeKey \<Rightarrow>
     (case (if leaf_id (ReadApiAsset.compression input) < 2 ^ 53
            then Inr (le_bytes (leaf_id (ReadApiAsset.compression input)) 8)
            else Inl (Error ''Assertion failed'')) of
        Inl e \<Rightarrow> Inl e
      | Inr leafBytes \<Rightarrow>
     (case Pda_find sdk (BUBBLEGUM_PROGRAM_ID sdk)
             [[0x61, 0x73, 0x73, 0x65, 0x74], toBuffer treeKey, leafBytes] of
        Inl e \<Rightarrow> Inl e
      | Inr pda \<Rightarrow>
     (case new_PublicKey (ReadApiAsset.id' input) of
        Inl e \<Rightarrow> Inl e
      | Inr mintKey \<Rightarrow>
     (case new_PublicKey (authority.address ua) of
        Inl e \<Rightarrow> Inl e
      | Inr authorityKey \<Rightarrow>
     (case (case find (\<lambda>g. group_key g = ''collection'') (ReadApiAsset.grouping input) of
              Some c \<Rightarrow>
                (case new_PublicKey (group_value c) of
                   Inl e \<Rightarrow> Inl e
                 | Inr collectionKey \<Rightarrow>
                     Inr (Some \<lparr>collection_ref.address = collectionKey,
                                collection_ref.verified = False\<rparr>))
            | None \<Rightarrow> Inr None) of
        Inl e \<Rightarrow> Inl e
      | Inr collectionRef \<Rightarrow>
          Inr
            \<lparr>model = ''metadata'',
             address = None,
             mintAddress = mintKey,
             updateAuthorityAddress = authorityKey,
             name = (case content.metadata (content input) of
                       None \<Rightarrow> []
                     | Some m \<Rightarrow> (case asset_json.name m of None \<Rightarrow> [] | Some n \<Rightarrow> n)),
             symbol = (case content.metadata (content input) of
                         None \<Rightarrow> []
                       | Some m \<Rightarrow> (case asset_json.symbol m of None \<Rightarrow> [] | Some n \<Rightarrow> n)),
             json = content.metadata (content input),
             jsonLoaded = True,
             uri = json_uri (content input),
             isMutable = mutable input,
             primarySaleHappened = primary_sale_happened (royalty input),
             sellerFeeBasisPoints = basis_points (royalty input),
             creators = ReadApiAsset.creators input,
             editionNonce = edition_nonce (ReadApiAsset.supply input),
             tokenStandard = NonFungible,
             collection = collectionRef,
             compression = ReadApiAsset.compression input,
             collectionDetails = None,
             uses = None,
             programmableConfig = None\<rparr>))))))"
proof -
  have l: "\<And>f. (case new_BN (leaf_id (ReadApiAsset.compression input)) of
              Inl e \<Rightarrow> Inl e
            | Inr leaf \<Rightarrow> (case toArray_le leaf 8 of Inl e \<Rightarrow> Inl e | Inr b \<Rightarrow> f b)) =
         (case (if leaf_id (ReadApiAsset.compression input) < 2 ^ 53
            then Inr (le_bytes (leaf_id (ReadApiAsset.compression input)) 8)
            else Inl (Error ''Assertion failed'')) of
            Inl e \<Rightarrow> Inl e | Inr b \<Rightarrow> f b)"
    unfolding leaf_bytes [symmetric] by (simp split: sum.splits)
  show ?thesis
    unfolding toMetadataFromReadApiAsset_def Let_def
    by (simp add: assms l asset_seed Pda_has_no_data cong: sum.case_cong)
qed

lemma toMetadata_Inr_D:
  assumes "toMetadataFromReadApiAsset sdk input = Inr md"
  shows "\<exists>as ua treeKey pda.
           authorities input = Some as
         \<and> find (\<lambda>a. ''full'' \<in> set (scopes a)) as = Some ua
         \<and> new_PublicKey (tree (ReadApiAsset.compression input)) = Inr treeKey
         \<and> leaf_id (ReadApiAsset.compression input) < 2 ^ 53
         \<and> Pda_find sdk (BUBBLEGUM_PROGRAM_ID sdk)
              [[0x61, 0x73, 0x73, 0x65, 0x74], toBuffer treeKey,
               le_bytes (leaf_id (ReadApiAsset.compression input)) 8] = Inr pda
         \<and> Metadata.address md = Pda_member pda ''data''
         \<and> new_PublicKey (ReadApiAsset.id' input) = Inr (mintAddress md)
         \<and> new_PublicKey (authority.address ua) = Inr (updateAuthorityAddress md)
         \<and> (case find (\<lambda>g. group_key g = ''collection'') (ReadApiAsset.grouping input) of
               None \<Rightarrow> Metadata.collection md = None
             | Some c \<Rightarrow>
                 new_PublicKey (group_value c) = Inr (PublicKey (group_value c))
               \<and> Metadata.collection md =
                   Some \<lparr>collection_ref.address = PublicKey (group_value c),
                         collection_ref.verified = False\<rparr>)"
proof -
  from assms obtain as ua where a: "authorities input = Some as"
    "find (\<lambda>a. ''full'' \<in> set (scopes a)) as = Some ua"
    by (auto simp add: toMetadataFromReadApiAsset_def Let_def split: option.splits)
  from assms show ?thesis
    unfolding toMetadata_with_authority [OF a]
    by (auto simp add: a Pda_has_no_data split: sum.splits if_splits option.splits
          dest: new_PublicKey_Inr)
qed


lemma chain_asset_fields:
  "authorities chain_asset =
     Some [\<lparr>authority.address = ''TokenkegQfeZyiNwAJbNbGKPFXCWuBvf9Ss623VQ5DA'',
            scopes = [''full'']\<rparr>]"
  "ReadApiAsset.id' chain_asset = ''noopb9bkMVfRPU8AsbpTUg8AQkHtKwMYZiFUjNRtMmV''"
  "ReadApiAsset.compression chain_asset =
     \<lparr>tree = ''cmtDvXumGCrqC1Age74AVPhSRVXJMd8PJS91L8KbNCK'', leaf_id = 258\<rparr>"
  "ReadApiAsset.grouping chain_asset =
     [\<lparr>group_key = ''collection'',
       group_value = ''metaqbxxUerdq28cj1RbAWkYQm3ybzjb6a8bt518x1s''\<rparr>]"
  by (simp_all add: chain_asset_def fixture_def)

lemma chain_asset_ungrouped_fields:
  "authorities chain_asset_ungrouped =
     Some [\<lparr>authority.address = ''TokenkegQfeZyiNwAJbNbGKPFXCWuBvf9Ss623VQ5DA'',
            scopes = [''full'']\<rparr>]"
  "ReadApiAsset.id' chain_asset_ungrouped = ''noopb9bkMVfRPU8AsbpTUg8AQkHtKwMYZiFUjNRtMmV''"
  "ReadApiAsset.compression chain_asset_ungrouped =
     \<lparr>tree = ''cmtDvXumGCrqC1Age74AVPhSRVXJMd8PJS91L8KbNCK'', leaf_id = 258\<rparr>"
  "ReadApiAsset.grouping chain_asset_ungrouped =
     [\<lparr>group_key = ''series'', group_value = ''S1''\<rparr>]"
  by (simp_all add: chain_asset_ungrouped_def chain_asset_def fixture_def)

lemma chain_authority_first:
  "find (\<lambda>a. ''full'' \<in> set (scopes a))
     [\<lparr>authority.address = ''TokenkegQfeZyiNwAJbNbGKPFXCWuBvf9Ss623VQ5DA'',
       scopes = [''full'']\<rparr>] =
     Some \<lparr>authority.address = ''TokenkegQfeZyiNwAJbNbGKPFXCWuBvf9Ss623VQ5DA'',
           scopes = [''full'']\<rparr>"
  by simp

lemma plain_sdk_finds:
  "Pda_find plain_sdk (BUBBLEGUM_PROGRAM_ID plain_sdk) seeds =
     Inr (Pda (PublicKey ''BGUMAp9Gq7iTEuizy4pqaxsTyUCBK68MDfK752saRPUY'')
            (255 - length (concat seeds)))"
  by (simp add: Pda_find_def plain_sdk_def)

lemma chain_asset_returns:
  "\<exists>md. toMetadataFromReadApiAsset plain_sdk chain_asset = Inr md"
  unfolding toMetadata_with_authority [OF chain_asset_fields(1) chain_authority_first]
  by (simp add: chain_asset_fields cmt_key noop_key token_key meta_key plain_sdk_finds)

lemma chain_asset_ungrouped_returns:
  "\<exists>md. toMetadataFromReadApiAsset plain_sdk chain_asset_ungrouped = Inr md"
  unfolding toMetadata_with_authority [OF chain_asset_ungrouped_fields(1) chain_authority_first]
  by (simp add: chain_asset_ungrouped_fields cmt_key noop_key token_key plain_sdk_finds)


text \<open>
  C7, as amended. Take an asset with an authority of full scope on which the
  constructions of the SDK succeed: the tree address, the asset's own address and the
  address of the first full-scope authority are public keys (base-58 text of 32 bytes),
  the leaf index is below \<open>2 ^ 53\<close>, and the program address is found. Then the
  transformer returns metadata with collection \<^verbatim>\<open>null\<close> when no grouping entry has the key
  \<^verbatim>\<open>"collection"\<close>; when the first such entry has a public key as its \<^verbatim>\<open>group_value\<close>, it
  returns metadata whose collection is the reference to that key, with
  \<^verbatim>\<open>verified = false\<close>; when that \<^verbatim>\<open>group_value\<close> is no public key, it throws the
  constructor's error. No collection that the transformer returns is verified.
\<close>

theorem collection_reference_unverified:
  assumes "authorities input = Some as"
    and "find (\<lambda>a. ''full'' \<in> set (scopes a)) as = Some ua"
    and "new_PublicKey (tree (ReadApiAsset.compression input)) = Inr treeKey"
    and "leaf_id (ReadApiAsset.compression input) < 2 ^ 53"
    and "Pda_find sdk (BUBBLEGUM_PROGRAM_ID sdk)
           [[0x61, 0x73, 0x73, 0x65, 0x74], toBuffer treeKey,
            le_bytes (leaf_id (ReadApiAsset.compression input)) 8] = Inr pda"
    and "new_PublicKey (ReadApiAsset.id' input) = Inr mintKey"
    and "new_PublicKey (authority.address ua) = Inr authorityKey"
  shows "((\<forall>g \<in> set (ReadApiAsset.grouping input). group_key g \<noteq> ''collection'')
           \<longrightarrow> (\<exists>md. toMetadataFromReadApiAsset sdk input = Inr md
                  \<and> Metadata.collection md = None))
      \<and> (\<forall>g k. find (\<lambda>g. group_key g = ''collection'') (ReadApiAsset.grouping input) = Some g
                \<and> new_PublicKey (group_value g) = Inr k
           \<longrightarrow> (\<exists>md. toMetadataFromReadApiAsset sdk input = Inr md
                  \<and> Metadata.collection md =
                      Some \<lparr>collection_ref.address = k, collection_ref.verified = False\<rparr>
                  \<and> toBase58 k = group_value g))
      \<and> (\<forall>g e. find (\<lambda>g. group_key g = ''collection'') (ReadApiAsset.grouping input) = Some g
                \<and> new_PublicKey (group_value g) = Inl e
           \<longrightarrow> toMetadataFromReadApiAsset sdk input = Inl e)
      \<and> (\<forall>md c. toMetadataFromReadApiAsset sdk input = Inr md
                \<and> Metadata.collection md = Some c
           \<longrightarrow> \<not> collection_ref.verified c)"
proof -
  note eq = toMetadata_with_authority [OF assms(1,2), of sdk]
  have n: "(\<forall>g \<in> set (ReadApiAsset.grouping input). group_key g \<noteq> ''collection'')
           \<longrightarrow> (\<exists>md. toMetadataFromReadApiAsset sdk input = Inr md
                  \<and> Metadata.collection md = None)"
  proof
    assume "\<forall>g \<in> set (ReadApiAsset.grouping input). group_key g \<noteq> ''collection''"
    then have "find (\<lambda>g. group_key g = ''collection'') (ReadApiAsset.grouping input) = None"
      by (simp add: find_None_iff)
    with assms(4) show "\<exists>md. toMetadataFromReadApiAsset sdk input = Inr md
                  \<and> Metadata.collection md = None"
      unfolding eq by (simp add: assms(3,5,6,7))
  qed
  have s: "\<forall>g k. find (\<lambda>g. group_key g = ''collection'') (ReadApiAsset.grouping input) = Some g
                \<and> new_PublicKey (group_value g) = Inr k
           \<longrightarrow> (\<exists>md. toMetadataFromReadApiAsset sdk input = Inr md
                  \<and> Metadata.collection md =
                      Some \<lparr>collection_ref.address = k, collection_ref.verified = False\<rparr>
                  \<and> toBase58 k = group_value g)"
  proof (intro allI impI, elim conjE)
    fix g k
    assume "find (\<lambda>g. group_key g = ''collection'') (ReadApiAsset.grouping input) = Some g"
      and k: "new_PublicKey (group_value g) = Inr k"
    with new_PublicKey_Inr [OF k] assms(4)
    show "\<exists>md. toMetadataFromReadApiAsset sdk input = Inr md
                  \<and> Metadata.collection md =
                      Some \<lparr>collection_ref.address = k, collection_ref.verified = False\<rparr>
                  \<and> toBase58 k = group_value g"
      unfolding eq by (simp add: assms(3,5,6,7))
  qed
  have t: "\<forall>g e. find (\<lambda>g. group_key g = ''collection'') (ReadApiAsset.grouping input) = Some g
                \<and> new_PublicKey (group_value g) = Inl e
           \<longrightarrow> toMetadataFromReadApiAsset sdk input = Inl e"
    using assms(4) unfolding eq by (simp add: assms(3,5,6,7))
  have v: "\<forall>md c. toMetadataFromReadApiAsset sdk input = Inr md
                \<and> Metadata.collection md = Some c
           \<longrightarrow> \<not> collection_ref.verified c"
  proof (intro allI impI, elim conjE)
    fix md c
    assume "toMetadataFromReadApiAsset sdk input = Inr md"
      and c: "Metadata.collection md = Some c"
    from toMetadata_Inr_D [OF this(1)] c show "\<not> collection_ref.verified c"
      by (auto split: option.splits)
  qed
  from n s t v show ?thesis by (intro conjI)
qed

lemma toBuffer_cmt_length:
  "length (toBuffer (PublicKey ''cmtDvXumGCrqC1Age74AVPhSRVXJMd8PJS91L8KbNCK'')) = 32"
  by (simp add: toBuffer_def bs58_decode_def base58_alphabet_def bytes_be.simps)

text \<open>
  The amended C7 at the asset of the chain, whose collection is the key of
  \<^verbatim>\<open>metaqbxx...\<close>, and at the same asset without a collection entry.
\<close>

theorem collection_reference_unverified_witness:
  "authorities chain_asset =
     Some [\<lparr>authority.address = ''TokenkegQfeZyiNwAJbNbGKPFXCWuBvf9Ss623VQ5DA'',
            scopes = [''full'']\<rparr>]
   \<and> new_PublicKey (tree (ReadApiAsset.compression chain_asset)) =
       Inr (PublicKey ''cmtDvXumGCrqC1Age74AVPhSRVXJMd8PJS91L8KbNCK'')
   \<and> leaf_id (ReadApiAsset.compression chain_asset) < 2 ^ 53
   \<and> new_PublicKey (ReadApiAsset.id' chain_asset) =
       Inr (PublicKey ''noopb9bkMVfRPU8AsbpTUg8AQkHtKwMYZiFUjNRtMmV'')
   \<and> (\<exists>md. toMetadataFromReadApiAsset plain_sdk chain_asset = Inr md
          \<and> Metadata.collection md =
              Some \<lparr>collection_ref.address =
                      PublicKey ''metaqbxxUerdq28cj1RbAWkYQm3ybzjb6a8bt518x1s'',
                    collection_ref.verified = False\<rparr>)
   \<and> (\<exists>md. toMetadataFromReadApiAsset plain_sdk chain_asset_ungrouped = Inr md
          \<and> Metadata.collection md = None)"
proof -
  have t: "new_PublicKey (tree (ReadApiAsset.compression chain_asset)) =
       Inr (PublicKey ''cmtDvXumGCrqC1Age74AVPhSRVXJMd8PJS91L8KbNCK'')"
    by (simp add: chain_asset_fields cmt_key)
  have l: "leaf_id (ReadApiAsset.compression chain_asset) < 2 ^ 53"
    by (simp add: chain_asset_fields)
  have i: "new_PublicKey (ReadApiAsset.id' chain_asset) =
       Inr (PublicKey ''noopb9bkMVfRPU8AsbpTUg8AQkHtKwMYZiFUjNRtMmV'')"
    by (simp add: chain_asset_fields noop_key)
  have u: "new_PublicKey
       (authority.address \<lparr>authority.address = ''TokenkegQfeZyiNwAJbNbGKPFXCWuBvf9Ss623VQ5DA'',
           scopes = [''full'']\<rparr>) =
       Inr (PublicKey ''TokenkegQfeZyiNwAJbNbGKPFXCWuBvf9Ss623VQ5DA'')"
    by (simp add: token_key)
  have g: "find (\<lambda>g. group_key g = ''collection'') (ReadApiAsset.grouping chain_asset) =
        Some \<lparr>group_key = ''collection'',
              group_value = ''metaqbxxUerdq28cj1RbAWkYQm3ybzjb6a8bt518x1s''\<rparr>
      \<and> new_PublicKey (group_value
          \<lparr>group_key = ''collection'',
           group_value = ''metaqbxxUerdq28cj1RbAWkYQm3ybzjb6a8bt518x1s''\<rparr>) =
        Inr (PublicKey ''metaqbxxUerdq28cj1RbAWkYQm3ybzjb6a8bt518x1s'')"
    by (simp add: chain_asset_fields meta_key)
  from collection_reference_unverified
         [OF chain_asset_fields(1) chain_authority_first t l plain_sdk_finds i u,
          THEN conjunct2, THEN conjunct1, rule_format, OF g]
  have 1: "\<exists>md. toMetadataFromReadApiAsset plain_sdk chain_asset = Inr md
          \<and> Metadata.collection md =
              Some \<lparr>collection_ref.address =
                      PublicKey ''metaqbxxUerdq28cj1RbAWkYQm3ybzjb6a8bt518x1s'',
                    collection_ref.verified = False\<rparr>"
    by blast
  have t': "new_PublicKey (tree (ReadApiAsset.compression chain_asset_ungrouped)) =
       Inr (PublicKey ''cmtDvXumGCrqC1Age74AVPhSRVXJMd8PJS91L8KbNCK'')"
    by (simp add: chain_asset_ungrouped_fields cmt_key)
  have l': "leaf_id (ReadApiAsset.compression chain_asset_ungrouped) < 2 ^ 53"
    by (simp add: chain_asset_ungrouped_fields)
  have i': "new_PublicKey (ReadApiAsset.id' chain_asset_ungrouped) =
       Inr (PublicKey ''noopb9bkMVfRPU8AsbpTUg8AQkHtKwMYZiFUjNRtMmV'')"
    by (simp add: chain_asset_ungrouped_fields noop_key)
  have n: "\<forall>g \<in> set (ReadApiAsset.grouping chain_asset_ungrouped).
             group_key g \<noteq> ''collection''"
    by (simp add: chain_asset_ungrouped_fields)
  from collection_reference_unverified
         [OF chain_asset_ungrouped_fields(1) chain_authority_first t' l' plain_sdk_finds i' u,
          THEN conjunct1, THEN mp, OF n]
  have 2: "\<exists>md. toMetadataFromReadApiAsset plain_sdk chain_asset_ungrouped = Inr md
          \<and> Metadata.collection md = None" .
  from chain_asset_fields(1) t l i 1 2 show ?thesis by (intro conjI)
qed

text \<open>
  C7 as stated fails on the asset of the spec's scenario without its collection entry:
  it has the authority \<^verbatim>\<open>Auth1\<close> with full scope and no \<^verbatim>\<open>"collection"\<close> entry, and the
  transformer throws, because \<^verbatim>\<open>Tree1\<close> is not the text of a public key.
\<close>

theorem scenario_asset_without_collection_throws:
  "authorities fixture_ungrouped =
     Some [\<lparr>authority.address = ''Auth1'', scopes = [''full'']\<rparr>]
   \<and> map group_key (ReadApiAsset.grouping fixture_ungrouped) = [''series'']
   \<and> toMetadataFromReadApiAsset plain_sdk fixture_ungrouped =
       Inl (Error ''Invalid public key input'')"
proof -
  have a: "authorities fixture_ungrouped =
     Some [\<lparr>authority.address = ''Auth1'', scopes = [''full'']\<rparr>]"
    by (simp add: fixture_ungrouped_def fixture_def)
  have f: "find (\<lambda>a. ''full'' \<in> set (scopes a))
             [\<lparr>authority.address = ''Auth1'', scopes = [''full'']\<rparr>] =
           Some \<lparr>authority.address = ''Auth1'', scopes = [''full'']\<rparr>"
    by simp
  have t: "tree (ReadApiAsset.compression fixture_ungrouped) = ''Tree1''"
    by (simp add: fixture_ungrouped_def fixture_def)
  have g: "map group_key (ReadApiAsset.grouping fixture_ungrouped) = [''series'']"
    by (simp add: fixture_ungrouped_def fixture_def)
  have "toMetadataFromReadApiAsset plain_sdk fixture_ungrouped =
       Inl (Error ''Invalid public key input'')"
    unfolding toMetadata_with_authority [OF a f]
    by (simp add: t scenario_addresses_are_no_keys)
  with a g show ?thesis by (intro conjI)
qed

text \<open>
  What the source does for the address of the metadata: whenever metadata is returned,
  \<^verbatim>\<open>Pda.find\<close> has been called with the Bubblegum program id and exactly three seeds (the
  bytes of the text \<^verbatim>\<open>asset\<close>, the 32 bytes of the tree key, and the leaf index in 8 bytes,
  least significant first, which read back as the leaf index), and the address stored is
  the member \<^verbatim>\<open>data\<close> of the \<^verbatim>\<open>Pda\<close> found, which is \<^verbatim>\<open>undefined\<close>.
\<close>

lemma metadata_address_is_data_of_pda:
  assumes "toMetadataFromReadApiAsset sdk input = Inr md"
  shows "\<exists>treeKey pda.
           new_PublicKey (tree (ReadApiAsset.compression input)) = Inr treeKey
         \<and> Pda_find sdk (BUBBLEGUM_PROGRAM_ID sdk)
              [[0x61, 0x73, 0x73, 0x65, 0x74], toBuffer treeKey,
               le_bytes (leaf_id (ReadApiAsset.compression input)) 8] = Inr pda
         \<and> length (le_bytes (leaf_id (ReadApiAsset.compression input)) 8) = 8
         \<and> from_le (le_bytes (leaf_id (ReadApiAsset.compression input)) 8) =
             leaf_id (ReadApiAsset.compression input)
         \<and> Metadata.address md = Pda_member pda ''data''
         \<and> Metadata.address md = None"
proof -
  from toMetadata_Inr_D [OF assms] obtain treeKey pda where
    t: "new_PublicKey (tree (ReadApiAsset.compression input)) = Inr treeKey"
    and l: "leaf_id (ReadApiAsset.compression input) < 2 ^ 53"
    and p: "Pda_find sdk (BUBBLEGUM_PROGRAM_ID sdk)
              [[0x61, 0x73, 0x73, 0x65, 0x74], toBuffer treeKey,
               le_bytes (leaf_id (ReadApiAsset.compression input)) 8] = Inr pda"
    and a: "Metadata.address md = Pda_member pda ''data''"
    by blast
  from l have "leaf_id (ReadApiAsset.compression input) < 256 ^ 8" by simp
  from from_le_le_bytes [OF this] t p a show ?thesis
    by (auto simp add: length_le_bytes Pda_has_no_data)
qed

text \<open>
  C8 says that the address of the metadata is the program-derived address of the seeds.
  The source derives it, and then stores \<^verbatim>\<open>Pda.find(...).data\<close>: the \<^verbatim>\<open>Pda\<close> found has no
  member \<^verbatim>\<open>data\<close>, and the address of the metadata returned is \<^verbatim>\<open>undefined\<close>. Here on
  the asset of the chain, whose seeds are the bytes of \<^verbatim>\<open>asset\<close>, the 32 bytes of the tree
  key and the bytes 2, 1, 0, 0, 0, 0, 0, 0 of the leaf index 258.
\<close>

theorem metadata_address_is_undefined:
  "Pda_find plain_sdk (BUBBLEGUM_PROGRAM_ID plain_sdk)
     [[0x61, 0x73, 0x73, 0x65, 0x74],
      toBuffer (PublicKey ''cmtDvXumGCrqC1Age74AVPhSRVXJMd8PJS91L8KbNCK''),
      [2, 1, 0, 0, 0, 0, 0, 0]] =
     Inr (Pda (PublicKey ''BGUMAp9Gq7iTEuizy4pqaxsTyUCBK68MDfK752saRPUY'') 210)
   \<and> (\<exists>md. toMetadataFromReadApiAsset plain_sdk chain_asset = Inr md
          \<and> Metadata.address md = None)"
proof -
  have p: "Pda_find plain_sdk (BUBBLEGUM_PROGRAM_ID plain_sdk)
     [[0x61, 0x73, 0x73, 0x65, 0x74],
      toBuffer (PublicKey ''cmtDvXumGCrqC1Age74AVPhSRVXJMd8PJS91L8KbNCK''),
      [2, 1, 0, 0, 0, 0, 0, 0]] =
     Inr (Pda (PublicKey ''BGUMAp9Gq7iTEuizy4pqaxsTyUCBK68MDfK752saRPUY'') 210)"
    by (simp add: plain_sdk_finds toBuffer_cmt_length)
  from chain_asset_returns obtain md where
    md: "toMetadataFromReadApiAsset plain_sdk chain_asset = Inr md" ..
  from metadata_address_is_data_of_pda [OF md] have "Metadata.address md = None"
    by blast
  with md p show ?thesis by blast
qed

end
